theory Spec2Isabelle
  imports Main "HOL-Library.Sublist" "HOL-Library.Multiset"
begin

section \<open>Python strings and path helpers used by server.py\<close>

text \<open>
  A Python \<open>str\<close> is a sequence of code points. It is modelled as a \<open>string\<close>, one
  character for each code point, so the strings of the model are those whose code
  points lie below 256; a \<open>str\<close> with a higher code point (a lone surrogate among
  them) has no counterpart here.

  On this range \<open>str.lower()\<close> works character by character: it maps \<open>A\<close> to \<open>Z\<close>
  onto \<open>a\<close> to \<open>z\<close>, and the letters U+00C0 to U+00DE, the multiplication sign
  U+00D7 excepted, onto U+00E0 to U+00FE; every other character is left as it is.
\<close>

definition ascii_uppercase :: string where
  "ascii_uppercase = ''ABCDEFGHIJKLMNOPQRSTUVWXYZ''"

definition ascii_lowercase :: string where
  "ascii_lowercase = ''abcdefghijklmnopqrstuvwxyz''"

definition latin1_uppercase :: string where
  "latin1_uppercase = [
     CHR 0xC0, CHR 0xC1, CHR 0xC2, CHR 0xC3, CHR 0xC4, CHR 0xC5, CHR 0xC6, CHR 0xC7,
     CHR 0xC8, CHR 0xC9, CHR 0xCA, CHR 0xCB, CHR 0xCC, CHR 0xCD, CHR 0xCE, CHR 0xCF,
     CHR 0xD0, CHR 0xD1, CHR 0xD2, CHR 0xD3, CHR 0xD4, CHR 0xD5, CHR 0xD6, CHR 0xD8,
     CHR 0xD9, CHR 0xDA, CHR 0xDB, CHR 0xDC, CHR 0xDD, CHR 0xDE]"

definition latin1_lowercase :: string where
  "latin1_lowercase = [
     CHR 0xE0, CHR 0xE1, CHR 0xE2, CHR 0xE3, CHR 0xE4, CHR 0xE5, CHR 0xE6, CHR 0xE7,
     CHR 0xE8, CHR 0xE9, CHR 0xEA, CHR 0xEB, CHR 0xEC, CHR 0xED, CHR 0xEE, CHR 0xEF,
     CHR 0xF0, CHR 0xF1, CHR 0xF2, CHR 0xF3, CHR 0xF4, CHR 0xF5, CHR 0xF6, CHR 0xF8,
     CHR 0xF9, CHR 0xFA, CHR 0xFB, CHR 0xFC, CHR 0xFD, CHR 0xFE]"

definition lower_char :: "char \<Rightarrow> char" where
  "lower_char c = (case map_of (zip (ascii_uppercase @ latin1_uppercase)
                                   (ascii_lowercase @ latin1_lowercase)) c of
                     Some l \<Rightarrow> l | None \<Rightarrow> c)"

definition lower :: "string \<Rightarrow> string" where
  "lower s = map lower_char s"

text \<open>\<open>s.endswith(t)\<close> for a tuple \<open>t\<close> of suffixes.\<close>

definition endswith :: "string \<Rightarrow> string list \<Rightarrow> bool" where
  "endswith s sufs = list_ex (\<lambda>e. suffix e s) sufs"

text \<open>\<open>s.replace(old, new)\<close> where \<open>old\<close> and \<open>new\<close> are single characters.\<close>

definition replace :: "char \<Rightarrow> char \<Rightarrow> string \<Rightarrow> string" where
  "replace old new s = map (\<lambda>c. if c = old then new else c) s"

text \<open>\<open>p.rfind(c)\<close>: the highest index of \<open>c\<close> in \<open>p\<close>, or \<open>-1\<close>.\<close>

fun rfind :: "string \<Rightarrow> char \<Rightarrow> int" where
  "rfind [] c = - 1"
| "rfind (x # xs) c =
     (let r = rfind xs c in if 0 \<le> r then r + 1 else if x = c then 0 else - 1)"

text \<open>
  \<open>os.path.splitext\<close> is \<open>genericpath._splitext(p, sep, altsep, extsep)\<close>:
  \<^verbatim>\<open>
    sepIndex = p.rfind(sep)
    if altsep:
        sepIndex = max(sepIndex, p.rfind(altsep))
    dotIndex = p.rfind(extsep)
    if dotIndex > sepIndex:
        filenameIndex = sepIndex + 1
        while filenameIndex < dotIndex:
            if p[filenameIndex:filenameIndex+1] != extsep:
                return p[:dotIndex], p[dotIndex:]
            filenameIndex += 1
    return p, p[:0]
  \<close>
  The \<open>while\<close> loop is \<open>splitext_loop\<close>: it answers whether the loop returns from
  its body (a character other than \<open>extsep\<close> stands before the last dot).
\<close>

function splitext_loop :: "string \<Rightarrow> char \<Rightarrow> nat \<Rightarrow> nat \<Rightarrow> bool" where
  "splitext_loop p extsep filenameIndex dotIndex =
     (if filenameIndex < dotIndex
      then (if take 1 (drop filenameIndex p) \<noteq> [extsep] then True
            else splitext_loop p extsep (Suc filenameIndex) dotIndex)
      else False)"
  by pat_completeness auto
termination
  by (relation "measure (\<lambda>(p, extsep, filenameIndex, dotIndex). dotIndex - filenameIndex)") auto

declare splitext_loop.simps [simp del]

definition splitext_generic :: "string \<Rightarrow> char \<Rightarrow> char option \<Rightarrow> char \<Rightarrow> string \<times> string" where
  "splitext_generic p sep altsep extsep =
     (let sepIndex = (case altsep of None \<Rightarrow> rfind p sep
                      | Some a \<Rightarrow> max (rfind p sep) (rfind p a));
          dotIndex = rfind p extsep
      in if sepIndex < dotIndex \<and> splitext_loop p extsep (nat (sepIndex + 1)) (nat dotIndex)
         then (take (nat dotIndex) p, drop (nat dotIndex) p)
         else (p, []))"

text \<open>\<open>posixpath.splitext\<close> and \<open>ntpath.splitext\<close>.\<close>

definition splitext :: "string \<Rightarrow> string \<times> string" where
  "splitext p = splitext_generic p (CHR ''/'') None (CHR ''.'')"

definition ntpath_splitext :: "string \<Rightarrow> string \<times> string" where
  "ntpath_splitext p = splitext_generic p (CHR 0x5C) (Some (CHR ''/'')) (CHR ''.'')"

section \<open>The SQLite store\<close>

text \<open>
  The two tables of \<open>init_db\<close>. The \<open>id\<close> column (\<open>INTEGER PRIMARY KEY\<close>, the
  rowid) is \<open>beat_rowid\<close>. A nullable column is an \<open>option\<close>; \<open>created_at\<close>
  (\<open>DEFAULT CURRENT_TIMESTAMP\<close>) is the clock reading \<open>now\<close> handed to the insert.
  The rows of a table are kept in insertion order; \<open>beats_seq\<close> is the
  \<open>sqlite_sequence\<close> entry that \<open>AUTOINCREMENT\<close> maintains.
\<close>

record beat =
  beat_rowid :: int
  beat_title :: string
  beat_slug :: string
  beat_description :: "string option"
  beat_genre :: "string option"
  beat_bpm :: "int option"
  beat_duration :: "int option"
  beat_file_name :: string
  beat_file_type :: string
  beat_created_at :: nat

text \<open>A value bound to a statement parameter or stored in a column, by SQLite's
  storage classes (a real is kept as the \<open>repr\<close> of the Python float).\<close>

datatype sqlval = SqlNull | SqlInteger int | SqlReal string | SqlText string

record inquiry =
  inq_rowid :: int
  inq_beat_id :: sqlval
  inq_name :: sqlval
  inq_email :: sqlval
  inq_offer :: sqlval
  inq_status :: string
  inq_created_at :: nat

record database =
  beats :: "beat list"
  beats_seq :: int
  exclusive_inquiries :: "inquiry list"
  exclusive_inquiries_seq :: int

text \<open>The exceptions that the modelled code can meet.\<close>

datatype exn =
    IntegrityError string
  | OverflowError
  | ProgrammingError
  | TypeError
  | ValueError
  | JSONDecodeError
  | OSError
  | KeyError

type_synonym 'a result = "exn + 'a"

text \<open>An integer parameter must fit SQLite's 64-bit signed INTEGER; the \<open>sqlite3\<close>
  module raises \<open>OverflowError\<close> otherwise.\<close>

definition in_int64 :: "int \<Rightarrow> bool" where
  "in_int64 i = (- (2 ^ 63) \<le> i \<and> i < 2 ^ 63)"

definition opt_in_int64 :: "int option \<Rightarrow> bool" where
  "opt_in_int64 v = (case v of None \<Rightarrow> True | Some i \<Rightarrow> in_int64 i)"

text \<open>\<open>AUTOINCREMENT\<close>: one more than the largest rowid the table has ever held.\<close>

definition next_rowid :: "int \<Rightarrow> int list \<Rightarrow> int" where
  "next_rowid seq ids = fold max ids seq + 1"

text \<open>
  \<open>INSERT INTO beats (title, slug, description, genre, bpm, duration, file_name,
  file_type) VALUES (?, ?, ?, ?, ?, ?, ?, ?)\<close> against the schema of \<open>init_db\<close>:
  \<open>title\<close>, \<open>slug\<close>, \<open>file_name\<close> and \<open>file_type\<close> are \<open>NOT NULL\<close>, and \<open>slug\<close> is
  the only \<open>UNIQUE\<close> column. A failed statement leaves the table as it was. The
  parameters are typed as the callers of this file pass them: text or \<open>None\<close>, and
  integers or \<open>None\<close> for \<open>bpm\<close> and \<open>duration\<close>.
\<close>

definition insert_beat ::
  "nat \<Rightarrow> database \<Rightarrow> string option \<Rightarrow> string option \<Rightarrow> string option \<Rightarrow> string option \<Rightarrow>
   int option \<Rightarrow> int option \<Rightarrow> string option \<Rightarrow> string option \<Rightarrow> (database \<times> int) result" where
  "insert_beat now db title slug description genre bpm duration file_name file_type =
     (if \<not> opt_in_int64 bpm \<or> \<not> opt_in_int64 duration then Inl OverflowError
      else case title of
        None \<Rightarrow> Inl (IntegrityError ''NOT NULL constraint failed: beats.title'')
      | Some t \<Rightarrow>
      (case slug of
        None \<Rightarrow> Inl (IntegrityError ''NOT NULL constraint failed: beats.slug'')
      | Some s \<Rightarrow>
      (case file_name of
        None \<Rightarrow> Inl (IntegrityError ''NOT NULL constraint failed: beats.file_name'')
      | Some f \<Rightarrow>
      (case file_type of
        None \<Rightarrow> Inl (IntegrityError ''NOT NULL constraint failed: beats.file_type'')
      | Some ft \<Rightarrow>
        if s \<in> set (map beat_slug (beats db))
        then Inl (IntegrityError ''UNIQUE constraint failed: beats.slug'')
        else
          let i = next_rowid (beats_seq db) (map beat_rowid (beats db)) in
          Inr (db\<lparr>beats := beats db @
                     [\<lparr>beat_rowid = i, beat_title = t, beat_slug = s,
                       beat_description = description, beat_genre = genre,
                       beat_bpm = bpm, beat_duration = duration,
                       beat_file_name = f, beat_file_type = ft,
                       beat_created_at = now\<rparr>],
                   beats_seq := i\<rparr>, i)))))"

text \<open>\<open>SELECT id FROM beats WHERE file_name = ?\<close> followed by \<open>fetchone()\<close>.\<close>

definition select_id_by_file_name :: "database \<Rightarrow> string \<Rightarrow> int option" where
  "select_id_by_file_name db file_name =
     (case filter (\<lambda>b. beat_file_name b = file_name) (beats db) of
        [] \<Rightarrow> None
      | b # _ \<Rightarrow> Some (beat_rowid b))"

text \<open>\<open>SELECT * FROM beats ORDER BY created_at DESC\<close> (rows of equal \<open>created_at\<close>
  are returned in insertion order here; SQL leaves their order open).\<close>

definition select_all_beats :: "database \<Rightarrow> beat list" where
  "select_all_beats db = sort_key (\<lambda>b. - int (beat_created_at b)) (beats db)"

subsection \<open>Connections and transactions\<close>

text \<open>
  \<open>sqlite3.connect\<close> opens a connection on the stored database. Statements change the
  connection's \<open>working\<close> copy; \<open>commit\<close> makes it the stored one, \<open>rollback\<close> drops
  it. Leaving \<open>with sqlite3.connect(...) as conn:\<close> commits when the block ended
  normally and rolls back when it raised; the exception then goes on. What is stored
  after the connection is dropped is \<open>committed\<close>.
\<close>

record connection =
  committed :: database
  working :: database

definition connect :: "database \<Rightarrow> connection" where
  "connect db = \<lparr>committed = db, working = db\<rparr>"

definition commit :: "connection \<Rightarrow> connection" where
  "commit c = c\<lparr>committed := working c\<rparr>"

definition rollback :: "connection \<Rightarrow> connection" where
  "rollback c = c\<lparr>working := committed c\<rparr>"

definition conn_exit :: "connection \<times> 'a result \<Rightarrow> connection \<times> 'a result" where
  "conn_exit cr = (case cr of
                     (c, Inl e) \<Rightarrow> (rollback c, Inl e)
                   | (c, Inr v) \<Rightarrow> (commit c, Inr v))"

definition execute_insert_beat ::
  "nat \<Rightarrow> connection \<Rightarrow> string option \<Rightarrow> string option \<Rightarrow> string option \<Rightarrow> string option \<Rightarrow>
   int option \<Rightarrow> int option \<Rightarrow> string option \<Rightarrow> string option \<Rightarrow> connection \<times> int result" where
  "execute_insert_beat now c title slug description genre bpm duration file_name file_type =
     (case insert_beat now (working c) title slug description genre bpm duration
             file_name file_type of
        Inl e \<Rightarrow> (c, Inl e)
      | Inr (db', i) \<Rightarrow> (c\<lparr>working := db'\<rparr>, Inr i))"

section \<open>BeatsDatabase\<close>

subsection \<open>sync_beats_from_folder\<close>

text \<open>What the file system answers about \<open>BEATS_FOLDER\<close>: \<open>os.path.exists\<close> is false,
  or \<open>os.listdir\<close> raises, or it returns the entry names.\<close>

datatype folder = Missing | Unlistable exn | Entries "string list"

text \<open>The lines that \<open>sync_beats_from_folder\<close> prints.\<close>

datatype log_line = BeatsFolderNotFound | Synced nat | ErrorSyncingBeats exn

definition audio_extensions :: "string list" where
  "audio_extensions = [''.mp3'', ''.wav'', ''.m4a'', ''.flac'', ''.ogg'']"

text \<open>The condition of the list comprehension of line 91:
  \<open>f.lower().endswith(audio_extensions)\<close>.\<close>

definition is_audio_file :: "string \<Rightarrow> bool" where
  "is_audio_file f = endswith (lower f) audio_extensions"

text \<open>The \<open>for file_name in files\<close> loop (lines 96 to 114). It returns the connection
  as the loop left it and whether the loop ended or raised.\<close>

fun sync_loop :: "nat \<Rightarrow> connection \<Rightarrow> string list \<Rightarrow> connection \<times> unit result" where
  "sync_loop now c [] = (c, Inr ())"
| "sync_loop now c (file_name # files) =
     (if select_id_by_file_name (working c) file_name \<noteq> None then sync_loop now c files
      else
        let title = fst (splitext file_name);
            file_type = lower (drop 1 (snd (splitext file_name)));
            slug = replace (CHR ''_'') (CHR ''-'') (replace (CHR '' '') (CHR ''-'') (lower title));
            duration = None
        in case execute_insert_beat now c (Some title) (Some slug) None None None duration
                  (Some file_name) (Some file_type) of
             (c', Inl e) \<Rightarrow> (c', Inl e)
           | (c', Inr i) \<Rightarrow> sync_loop now c' files)"

text \<open>The body of the \<open>try\<close> (lines 89 to 117): the stored database afterwards, the
  lines printed, and whether an exception left the body.\<close>

definition sync_try_body ::
  "nat \<Rightarrow> folder \<Rightarrow> database \<Rightarrow> database \<times> log_line list \<times> unit result" where
  "sync_try_body now folder db =
     (case folder of
        Missing \<Rightarrow> (db, [], Inl OSError)
      | Unlistable e \<Rightarrow> (db, [], Inl e)
      | Entries entries \<Rightarrow>
          let files = filter is_audio_file entries in
          (case conn_exit
                  (case sync_loop now (connect db) files of
                     (c, Inl e) \<Rightarrow> (c, Inl e)
                   | (c, Inr u) \<Rightarrow> (commit c, Inr [Synced (length files)])) of
             (c, Inl e) \<Rightarrow> (committed c, [], Inl e)
           | (c, Inr printed) \<Rightarrow> (committed c, printed, Inr ())))"

definition sync_beats_from_folder ::
  "nat \<Rightarrow> folder \<Rightarrow> database \<Rightarrow> database \<times> log_line list \<times> unit result" where
  "sync_beats_from_folder now folder db =
     (if folder = Missing then (db, [BeatsFolderNotFound], Inr ())
      else case sync_try_body now folder db of
             (db', printed, Inl e) \<Rightarrow> (db', printed @ [ErrorSyncingBeats e], Inr ())
           | (db', printed, Inr u) \<Rightarrow> (db', printed, Inr u))"

subsection \<open>get_all_beats and add_beat\<close>

definition get_all_beats ::
  "nat \<Rightarrow> folder \<Rightarrow> database \<Rightarrow> database \<times> log_line list \<times> beat list result" where
  "get_all_beats now folder db =
     (case sync_beats_from_folder now folder db of
        (db', printed, Inl e) \<Rightarrow> (db', printed, Inl e)
      | (db', printed, Inr u) \<Rightarrow> (db', printed, Inr (select_all_beats db')))"

definition add_beat ::
  "nat \<Rightarrow> database \<Rightarrow> string option \<Rightarrow> string option \<Rightarrow> string option \<Rightarrow> string option \<Rightarrow>
   int option \<Rightarrow> int option \<Rightarrow> string option \<Rightarrow> string option \<Rightarrow> database \<times> int result" where
  "add_beat now db title slug description genre bpm duration file_name file_type =
     (case conn_exit
             (case execute_insert_beat now (connect db) title slug description genre bpm
                     duration file_name file_type of
                (c, Inl e) \<Rightarrow> (c, Inl e)
              | (c, Inr lastrowid) \<Rightarrow> (commit c, Inr lastrowid)) of
        (c, r) \<Rightarrow> (committed c, r))"

text \<open>The empty store that \<open>init_db\<close> creates.\<close>

definition init_db :: database where
  "init_db = \<lparr>beats = [], beats_seq = 0, exclusive_inquiries = [],
              exclusive_inquiries_seq = 0\<rparr>"


section \<open>Values decoded from JSON\<close>

text \<open>
  What \<open>json.loads\<close> returns: \<open>None\<close>, \<open>bool\<close>, \<open>int\<close>, \<open>float\<close> (kept as its
  \<open>repr\<close>), \<open>str\<close>, \<open>list\<close> and \<open>dict\<close>. A \<open>dict\<close> is an association list whose
  keys are taken to be distinct, as in Python.
\<close>

datatype pyval =
    PyNone
  | PyBool bool
  | PyInt int
  | PyFloat string
  | PyStr string
  | PyList "pyval list"
  | PyDict "(string \<times> pyval) list"

text \<open>\<open>x in container\<close> for a string \<open>x\<close>: key membership in a dict, element
  membership in a list, substring in a string, \<open>TypeError\<close> otherwise.\<close>

fun py_contains :: "pyval \<Rightarrow> string \<Rightarrow> bool result" where
  "py_contains (PyDict kvs) x = Inr (x \<in> set (map fst kvs))"
| "py_contains (PyList vs) x = Inr (PyStr x \<in> set vs)"
| "py_contains (PyStr s) x = Inr (sublist x s)"
| "py_contains PyNone x = Inl TypeError"
| "py_contains (PyBool b) x = Inl TypeError"
| "py_contains (PyInt i) x = Inl TypeError"
| "py_contains (PyFloat r) x = Inl TypeError"

text \<open>\<open>container[key]\<close> for a string key: only a dict can be subscripted by one.\<close>

fun py_getitem :: "pyval \<Rightarrow> string \<Rightarrow> pyval result" where
  "py_getitem (PyDict kvs) k = (case map_of kvs k of None \<Rightarrow> Inl KeyError | Some v \<Rightarrow> Inr v)"
| "py_getitem (PyList vs) k = Inl TypeError"
| "py_getitem (PyStr s) k = Inl TypeError"
| "py_getitem PyNone k = Inl TypeError"
| "py_getitem (PyBool b) k = Inl TypeError"
| "py_getitem (PyInt i) k = Inl TypeError"
| "py_getitem (PyFloat r) k = Inl TypeError"

text \<open>Binding a Python value to a statement parameter: \<open>list\<close> and \<open>dict\<close> are not
  supported by \<open>sqlite3\<close>, an \<open>int\<close> must fit 64 bits, a \<open>bool\<close> is an \<open>int\<close>, and
  SQLite stores the float \<open>nan\<close> as \<open>NULL\<close>. A \<open>str\<close> is bound as its UTF-8
  encoding, which every string of the model has (a lone surrogate, which has none and
  makes \<open>sqlite3\<close> raise, is not among them).\<close>

fun bind_param :: "pyval \<Rightarrow> sqlval result" where
  "bind_param PyNone = Inr SqlNull"
| "bind_param (PyBool b) = Inr (SqlInteger (if b then 1 else 0))"
| "bind_param (PyInt i) = (if in_int64 i then Inr (SqlInteger i) else Inl OverflowError)"
| "bind_param (PyFloat r) = (if r = ''nan'' then Inr SqlNull else Inr (SqlReal r))"
| "bind_param (PyStr s) = Inr (SqlText s)"
| "bind_param (PyList vs) = Inl ProgrammingError"
| "bind_param (PyDict kvs) = Inl ProgrammingError"

text \<open>Sequencing of computations that may raise.\<close>

definition and_then :: "'a result \<Rightarrow> ('a \<Rightarrow> 'b result) \<Rightarrow> 'b result" where
  "and_then r f = (case r of Inl e \<Rightarrow> Inl e | Inr v \<Rightarrow> f v)"

subsection \<open>save_inquiry\<close>

text \<open>
  A value stored in a column is first converted to the column's affinity. \<open>NULL\<close> is
  never converted; an integer keeps its form in an \<open>INTEGER\<close> column and a text in a
  \<open>TEXT\<close> column. The other conversions are SQLite's own and are taken as parameters:
  \<open>to_numeric\<close> is what an \<open>INTEGER\<close> column makes of a text or a real (the text
  \<open>'5'\<close> becomes the integer 5, a text that is no number stays a text), \<open>to_text\<close>
  is what a \<open>TEXT\<close> column makes of an integer or a real (the integer 7 becomes the
  text \<open>'7'\<close>).
\<close>

record affinity =
  to_numeric :: "sqlval \<Rightarrow> sqlval"
  to_text :: "sqlval \<Rightarrow> sqlval"

definition integer_affinity :: "affinity \<Rightarrow> sqlval \<Rightarrow> sqlval" where
  "integer_affinity aff v =
     (case v of
        SqlNull \<Rightarrow> SqlNull
      | SqlInteger i \<Rightarrow> SqlInteger i
      | SqlReal r \<Rightarrow> to_numeric aff (SqlReal r)
      | SqlText t \<Rightarrow> to_numeric aff (SqlText t))"

definition text_affinity :: "affinity \<Rightarrow> sqlval \<Rightarrow> sqlval" where
  "text_affinity aff v =
     (case v of
        SqlNull \<Rightarrow> SqlNull
      | SqlInteger i \<Rightarrow> to_text aff (SqlInteger i)
      | SqlReal r \<Rightarrow> to_text aff (SqlReal r)
      | SqlText t \<Rightarrow> SqlText t)"

text \<open>
  \<open>INSERT INTO exclusive_inquiries (beat_id, name, email, offer) VALUES (?, ?, ?, ?)\<close>
  against the schema of \<open>init_db\<close>: the four columns are \<open>NOT NULL\<close>, \<open>beat_id\<close> is
  an \<open>INTEGER\<close> column, \<open>name\<close>, \<open>email\<close> and \<open>offer\<close> are \<open>TEXT\<close> columns, and
  \<open>status\<close> takes its default \<open>'new'\<close>. The foreign key is not enforced (SQLite
  leaves \<open>foreign_keys\<close> off unless asked).
\<close>

definition insert_inquiry ::
  "affinity \<Rightarrow> nat \<Rightarrow> database \<Rightarrow> sqlval \<Rightarrow> sqlval \<Rightarrow> sqlval \<Rightarrow> sqlval \<Rightarrow>
   (database \<times> int) result" where
  "insert_inquiry aff now db beat_id name email offer =
     (if beat_id = SqlNull
      then Inl (IntegrityError ''NOT NULL constraint failed: exclusive_inquiries.beat_id'')
      else if name = SqlNull
      then Inl (IntegrityError ''NOT NULL constraint failed: exclusive_inquiries.name'')
      else if email = SqlNull
      then Inl (IntegrityError ''NOT NULL constraint failed: exclusive_inquiries.email'')
      else if offer = SqlNull
      then Inl (IntegrityError ''NOT NULL constraint failed: exclusive_inquiries.offer'')
      else
        let i = next_rowid (exclusive_inquiries_seq db) (map inq_rowid (exclusive_inquiries db)) in
        Inr (db\<lparr>exclusive_inquiries := exclusive_inquiries db @
                   [\<lparr>inq_rowid = i, inq_beat_id = integer_affinity aff beat_id,
                     inq_name = text_affinity aff name, inq_email = text_affinity aff email,
                     inq_offer = text_affinity aff offer, inq_status = ''new'',
                     inq_created_at = now\<rparr>],
                 exclusive_inquiries_seq := i\<rparr>, i))"

definition save_inquiry ::
  "affinity \<Rightarrow> nat \<Rightarrow> database \<Rightarrow> pyval \<Rightarrow> pyval \<Rightarrow> pyval \<Rightarrow> pyval \<Rightarrow>
   database \<times> int result" where
  "save_inquiry aff now db beat_id name email offer =
     (case conn_exit
             (let c = connect db in
              case and_then (bind_param beat_id) (\<lambda>b.
                   and_then (bind_param name) (\<lambda>n.
                   and_then (bind_param email) (\<lambda>m.
                   and_then (bind_param offer) (\<lambda>off.
                     insert_inquiry aff now (working c) b n m off)))) of
                Inl e \<Rightarrow> (c, Inl e)
              | Inr (db', lastrowid) \<Rightarrow> (commit (c\<lparr>working := db'\<rparr>), Inr lastrowid)) of
        (c, r) \<Rightarrow> (committed c, r))"

subsection \<open>get_beat_by_id\<close>

text \<open>\<open>SELECT * FROM beats WHERE id = ?\<close> with \<open>fetchone()\<close>; the integer parameter
  is bound first.\<close>

definition get_beat_by_id :: "database \<Rightarrow> int \<Rightarrow> beat option result" where
  "get_beat_by_id db beat_id =
     (if in_int64 beat_id then Inr (find (\<lambda>b. beat_rowid b = beat_id) (beats db))
      else Inl OverflowError)"

section \<open>BeatStoreHandler\<close>

text \<open>What a handler sends, call by call: \<open>send_error\<close>, \<open>send_response\<close>,
  \<open>send_header\<close>, \<open>end_headers\<close>, and \<open>wfile.write\<close> of a JSON document
  (\<open>json.dumps(...).encode()\<close>) or of raw bytes.\<close>

datatype header_value = Text string | Decimal nat

datatype out =
    SendError nat
  | SendResponse nat
  | SendHeader string header_value
  | EndHeaders
  | WriteJson pyval
  | WriteBytes string

definition opt_str :: "string option \<Rightarrow> pyval" where
  "opt_str v = (case v of None \<Rightarrow> PyNone | Some s \<Rightarrow> PyStr s)"

definition opt_int :: "int option \<Rightarrow> pyval" where
  "opt_int v = (case v of None \<Rightarrow> PyNone | Some i \<Rightarrow> PyInt i)"

definition beat_dict :: "beat \<Rightarrow> pyval" where
  "beat_dict beat =
     PyDict [(''id'', PyInt (beat_rowid beat)),
             (''title'', PyStr (beat_title beat)),
             (''slug'', PyStr (beat_slug beat)),
             (''description'', opt_str (beat_description beat)),
             (''genre'', opt_str (beat_genre beat)),
             (''bpm'', opt_int (beat_bpm beat)),
             (''duration'', opt_int (beat_duration beat)),
             (''fileType'', PyStr (beat_file_type beat)),
             (''fileName'', PyStr (beat_file_name beat)),
             (''fileUrl'', PyStr (''/api/audio/'' @ beat_file_name beat))]"

subsection \<open>int(beat_id)\<close>

text \<open>
  Python's \<open>int(s)\<close> for a \<open>str\<close>, base 10. CPython first replaces each code
  point from 128 up that is white space by a blank (below 256 these are U+0085 and
  U+00A0) and leaves the code points below 127 alone; it then skips the C white space
  (blank and 0x09 to 0x0D, not 0x1C to 0x1F) at both ends, allows one sign, and reads
  decimal digits, where a single underscore may stand between two digits. Anything
  else raises \<open>ValueError\<close>; so do more digits than \<open>sys.int_max_str_digits\<close>, 4300
  unless configured (Python 3.11). Below 256 the only decimal digits are \<open>0\<close> to \<open>9\<close>.
\<close>

definition py_whitespace :: "char list" where
  "py_whitespace = [CHR '' '', CHR 0x09, CHR 0x0A, CHR 0x0B, CHR 0x0C, CHR 0x0D,
                    CHR 0x85, CHR 0xA0]"

definition int_max_str_digits :: nat where
  "int_max_str_digits = 4300"

definition strip :: "string \<Rightarrow> string" where
  "strip s = rev (dropWhile (\<lambda>c. c \<in> set py_whitespace)
               (rev (dropWhile (\<lambda>c. c \<in> set py_whitespace) s)))"

definition digit_of :: "char \<Rightarrow> int option" where
  "digit_of c = map_of (zip ''0123456789'' [0, 1, 2, 3, 4, 5, 6, 7, 8, 9]) c"

fun parse_digits :: "int \<Rightarrow> bool \<Rightarrow> string \<Rightarrow> int option" where
  "parse_digits acc prev_digit [] = (if prev_digit then Some acc else None)"
| "parse_digits acc prev_digit (c # cs) =
     (if c = CHR ''_'' then (if prev_digit then parse_digits acc False cs else None)
      else case digit_of c of
             None \<Rightarrow> None
           | Some d \<Rightarrow> parse_digits (10 * acc + d) True cs)"

definition py_int :: "string \<Rightarrow> int result" where
  "py_int s =
     (let t = strip s;
          negative = (take 1 t = ''-'');
          body = (if take 1 t = ''-'' \<or> take 1 t = ''+'' then drop 1 t else t)
      in case parse_digits 0 False body of
           None \<Rightarrow> Inl ValueError
         | Some n \<Rightarrow>
             if int_max_str_digits < length (filter (\<lambda>c. c \<noteq> CHR ''_'') body)
             then Inl ValueError
             else Inr (if negative then - n else n))"

subsection \<open>handle_get_beat\<close>

definition get_beat_try_body :: "database \<Rightarrow> string \<Rightarrow> out list \<times> unit result" where
  "get_beat_try_body db beat_id =
     (case and_then (py_int beat_id) (get_beat_by_id db) of
        Inl e \<Rightarrow> ([], Inl e)
      | Inr None \<Rightarrow> ([SendError 404], Inr ())
      | Inr (Some beat) \<Rightarrow>
          ([SendResponse 200,
            SendHeader ''Content-Type'' (Text ''application/json''),
            SendHeader ''Access-Control-Allow-Origin'' (Text ''*''),
            EndHeaders,
            WriteJson (beat_dict beat)], Inr ()))"

definition handle_get_beat :: "database \<Rightarrow> string \<Rightarrow> out list" where
  "handle_get_beat db beat_id =
     (case get_beat_try_body db beat_id of
        (sent, Inl e) \<Rightarrow> sent @ [SendError 500]
      | (sent, Inr u) \<Rightarrow> sent)"

subsection \<open>handle_inquiry_submission\<close>

definition required_fields :: "string list" where
  "required_fields = [''beatId'', ''name'', ''email'', ''offer'']"

text \<open>\<open>all(field in data for field in required_fields)\<close>: stops at the first field
  that is missing, raises where \<open>in\<close> does.\<close>

fun all_fields_in :: "pyval \<Rightarrow> string list \<Rightarrow> bool result" where
  "all_fields_in data [] = Inr True"
| "all_fields_in data (field # others) =
     and_then (py_contains data field)
       (\<lambda>present. if present then all_fields_in data others else Inr False)"

text \<open>\<open>'@' not in data['email'] or '.' not in data['email']\<close>.\<close>

definition email_rejected :: "pyval \<Rightarrow> bool result" where
  "email_rejected data =
     and_then (py_getitem data ''email'') (\<lambda>email.
     and_then (py_contains email ''@'') (\<lambda>has_at.
       if \<not> has_at then Inr True
       else and_then (py_getitem data ''email'') (\<lambda>email.
            and_then (py_contains email ''.'') (\<lambda>has_dot. Inr (\<not> has_dot)))))"

definition bad_request :: "string \<Rightarrow> out list" where
  "bad_request message =
     [SendResponse 400,
      SendHeader ''Content-Type'' (Text ''application/json''),
      EndHeaders,
      WriteJson (PyDict [(''error'', PyStr message)])]"

text \<open>The body of the \<open>try\<close> of \<open>handle_inquiry_submission\<close>. \<open>loaded\<close> is the outcome
  of lines 303 to 305 (reading and decoding the request body, \<open>json.loads\<close>).\<close>

definition inquiry_try_body ::
  "affinity \<Rightarrow> nat \<Rightarrow> pyval result \<Rightarrow> database \<Rightarrow> database \<times> out list \<times> unit result" where
  "inquiry_try_body aff now loaded db =
     (case loaded of
        Inl e \<Rightarrow> (db, [], Inl e)
      | Inr data \<Rightarrow>
     (case all_fields_in data required_fields of
        Inl e \<Rightarrow> (db, [], Inl e)
      | Inr False \<Rightarrow> (db, bad_request ''Missing required fields'', Inr ())
      | Inr True \<Rightarrow>
     (case email_rejected data of
        Inl e \<Rightarrow> (db, [], Inl e)
      | Inr True \<Rightarrow> (db, bad_request ''Invalid email format'', Inr ())
      | Inr False \<Rightarrow>
     (case and_then (py_getitem data ''beatId'') (\<lambda>beat_id.
           and_then (py_getitem data ''name'') (\<lambda>name.
           and_then (py_getitem data ''email'') (\<lambda>email.
           and_then (py_getitem data ''offer'') (\<lambda>offer.
             Inr (save_inquiry aff now db beat_id name email offer))))) of
        Inl e \<Rightarrow> (db, [], Inl e)
      | Inr (db', Inl e) \<Rightarrow> (db', [], Inl e)
      | Inr (db', Inr inquiry_id) \<Rightarrow>
          (db',
           [SendResponse 200,
            SendHeader ''Content-Type'' (Text ''application/json''),
            SendHeader ''Access-Control-Allow-Origin'' (Text ''*''),
            EndHeaders,
            WriteJson (PyDict [(''success'', PyBool True),
                               (''inquiryId'', PyInt inquiry_id),
                               (''message'', PyStr ''Inquiry submitted successfully'')])],
           Inr ())))))"

definition handle_inquiry_submission ::
  "affinity \<Rightarrow> nat \<Rightarrow> pyval result \<Rightarrow> database \<Rightarrow> database \<times> out list" where
  "handle_inquiry_submission aff now loaded db =
     (case inquiry_try_body aff now loaded db of
        (db', sent, Inr u) \<Rightarrow> (db', sent)
      | (db', sent, Inl e) \<Rightarrow>
          if e = JSONDecodeError then (db', sent @ [SendError 400])
          else (db', sent @ [SendError 500]))"

subsection \<open>handle_audio_stream\<close>

text \<open>\<open>posixpath.join\<close> of two parts, \<open>str.split\<close>, \<open>posixpath.normpath\<close> and
  \<open>posixpath.abspath\<close> (with the working directory \<open>cwd\<close> of the process).\<close>

definition join :: "string \<Rightarrow> string \<Rightarrow> string" where
  "join a b = (if prefix ''/'' b then b
               else if a = [] \<or> suffix ''/'' a then a @ b
               else a @ ''/'' @ b)"

fun split :: "char \<Rightarrow> string \<Rightarrow> string list" where
  "split sep [] = [[]]"
| "split sep (c # cs) =
     (if c = sep then [] # split sep cs
      else case split sep cs of
             [] \<Rightarrow> [[c]]
           | w # ws \<Rightarrow> (c # w) # ws)"

fun sep_join :: "string \<Rightarrow> string list \<Rightarrow> string" where
  "sep_join sep [] = []"
| "sep_join sep [w] = w"
| "sep_join sep (w # v # ws) = w @ sep @ sep_join sep (v # ws)"

text \<open>The \<open>for comp in comps\<close> loop of \<open>normpath\<close>.\<close>

fun normpath_loop :: "nat \<Rightarrow> string list \<Rightarrow> string list \<Rightarrow> string list" where
  "normpath_loop initial_slashes new_comps [] = new_comps"
| "normpath_loop initial_slashes new_comps (part # comps) =
     (if part = [] \<or> part = ''.'' then normpath_loop initial_slashes new_comps comps
      else if part \<noteq> ''..'' \<or> (initial_slashes = 0 \<and> new_comps = []) \<or>
              (new_comps \<noteq> [] \<and> last new_comps = ''..'')
      then normpath_loop initial_slashes (new_comps @ [part]) comps
      else if new_comps \<noteq> [] then normpath_loop initial_slashes (butlast new_comps) comps
      else normpath_loop initial_slashes new_comps comps)"

definition normpath :: "string \<Rightarrow> string" where
  "normpath path =
     (if path = [] then ''.''
      else
        let initial_slashes =
              (if prefix ''/'' path
               then (if prefix ''//'' path \<and> \<not> prefix ''///'' path then 2 else 1)
               else (0::nat));
            comps = normpath_loop initial_slashes [] (split (CHR ''/'') path);
            path' = replicate initial_slashes (CHR ''/'') @ sep_join ''/'' comps
        in if path' = [] then ''.'' else path')"

definition abspath :: "string \<Rightarrow> string \<Rightarrow> string" where
  "abspath cwd path = normpath (if prefix ''/'' path then path else join cwd path)"

text \<open>
  What the handler reads from its surroundings: the configured \<open>BEATS_FOLDER\<close>, the
  working directory, what the file system holds at a path (nothing; a file with its
  bytes; or an entry of some size that \<open>open\<close> cannot read, such as a directory), and
  the answer of \<open>mimetypes.guess_type\<close>.
\<close>

datatype fs_entry = Absent | File string | Unopenable nat

record env =
  BEATS_FOLDER :: string
  cwd :: string
  lookup :: "string \<Rightarrow> fs_entry"
  guess_type :: "string \<Rightarrow> string option"

definition content_type_of :: "env \<Rightarrow> string \<Rightarrow> string \<Rightarrow> string" where
  "content_type_of ev file_path file_name =
     (case guess_type ev file_path of
        Some t \<Rightarrow> if t \<noteq> [] then t
                  else if endswith (lower file_name) [''.mp3''] then ''audio/mpeg''
                  else if endswith (lower file_name) [''.wav''] then ''audio/wav''
                  else if endswith (lower file_name) [''.m4a''] then ''audio/mp4''
                  else ''audio/mpeg''
      | None \<Rightarrow> if endswith (lower file_name) [''.mp3''] then ''audio/mpeg''
                else if endswith (lower file_name) [''.wav''] then ''audio/wav''
                else if endswith (lower file_name) [''.m4a''] then ''audio/mp4''
                else ''audio/mpeg'')"

definition handle_audio_stream :: "env \<Rightarrow> string \<Rightarrow> out list" where
  "handle_audio_stream ev file_name =
     (let file_path = join (BEATS_FOLDER ev) file_name in
      if \<not> prefix (abspath (cwd ev) (BEATS_FOLDER ev)) (abspath (cwd ev) file_path)
      then [SendError 403]
      else case lookup ev file_path of
        Absent \<Rightarrow> [SendError 404]
      | File bytes \<Rightarrow>
          [SendResponse 200,
           SendHeader ''Content-Type'' (Text (content_type_of ev file_path file_name)),
           SendHeader ''Content-Length'' (Decimal (length bytes)),
           SendHeader ''Accept-Ranges'' (Text ''bytes''),
           SendHeader ''Access-Control-Allow-Origin'' (Text ''*''),
           EndHeaders,
           WriteBytes bytes]
      | Unopenable file_size \<Rightarrow>
          [SendResponse 200,
           SendHeader ''Content-Type'' (Text (content_type_of ev file_path file_name)),
           SendHeader ''Content-Length'' (Decimal file_size),
           SendHeader ''Accept-Ranges'' (Text ''bytes''),
           SendHeader ''Access-Control-Allow-Origin'' (Text ''*''),
           EndHeaders,
           SendError 500])"

section \<open>Notions used to state the properties\<close>

text \<open>The values that lines 103 to 105 derive from a file name.\<close>

definition title_of :: "string \<Rightarrow> string" where
  "title_of file_name = fst (splitext file_name)"

definition file_type_of :: "string \<Rightarrow> string" where
  "file_type_of file_name = lower (drop 1 (snd (splitext file_name)))"

definition slug_of :: "string \<Rightarrow> string" where
  "slug_of file_name =
     replace (CHR ''_'') (CHR ''-'') (replace (CHR '' '') (CHR ''-'') (lower (title_of file_name)))"

text \<open>The row that the loop inserts for a file name, given the rowid it receives.\<close>

definition synced_row :: "nat \<Rightarrow> int \<Rightarrow> string \<Rightarrow> beat" where
  "synced_row now i file_name =
     \<lparr>beat_rowid = i, beat_title = title_of file_name, beat_slug = slug_of file_name,
      beat_description = None, beat_genre = None, beat_bpm = None, beat_duration = None,
      beat_file_name = file_name, beat_file_type = file_type_of file_name,
      beat_created_at = now\<rparr>"

text \<open>The file names and the slugs that the store holds.\<close>

definition file_names :: "database \<Rightarrow> string list" where
  "file_names db = map beat_file_name (beats db)"

definition slugs :: "database \<Rightarrow> string list" where
  "slugs db = map beat_slug (beats db)"


text \<open>In the words of the specification: the slug of a title, each character
  lower-cased and each space and each underscore replaced by a hyphen in place.\<close>

definition hyphenate :: "char \<Rightarrow> char" where
  "hyphenate ch = (if ch = CHR '' '' \<or> ch = CHR ''_'' then CHR ''-'' else lower_char ch)"

text \<open>In the words of the specification: a resolved path lies in the audio directory
  when it is the directory itself or continues it after a separator.\<close>

definition resolves_inside :: "string \<Rightarrow> string \<Rightarrow> bool" where
  "resolves_inside root p =
     (p = root \<or> prefix (if suffix ''/'' root then root else root @ ''/'') p)"

text \<open>The characters that can stand in a string that \<open>int\<close> accepts: digits, signs,
  the underscore and white space.\<close>

definition int_chars :: "char list" where
  "int_chars = ''0123456789+-_'' @ py_whitespace"

text \<open>Conversions that leave every value as it is. They stand for SQLite's in the
  evaluations below, where no value reaches them: an integer goes into the \<open>INTEGER\<close>
  column and text into the \<open>TEXT\<close> columns.\<close>

definition stored_as_bound :: affinity where
  "stored_as_bound = \<lparr>to_numeric = (\<lambda>v. v), to_text = (\<lambda>v. v)\<rparr>"

text \<open>The connection after the loop has inserted the row of a new file name.\<close>

definition step :: "nat \<Rightarrow> connection \<Rightarrow> string \<Rightarrow> connection" where
  "step now c f = c\<lparr>working := (working c)\<lparr>beats := beats (working c) @
       [synced_row now (next_rowid (beats_seq (working c)) (map beat_rowid (beats (working c)))) f],
       beats_seq := next_rowid (beats_seq (working c)) (map beat_rowid (beats (working c)))\<rparr>\<rparr>"

text \<open>What holds of the rows that a pass adds to the working copy: each comes from a
  file name of the pass that the store did not hold, with the derived values, and no
  two share a file name or a slug, nor a slug with a row held before.\<close>

definition added_ok :: "nat \<Rightarrow> database \<Rightarrow> string list \<Rightarrow> beat list \<Rightarrow> bool" where
  "added_ok now db fs added =
     ((\<forall>b\<in>set added. beat_file_name b \<in> set fs \<and> beat_file_name b \<notin> set (file_names db) \<and>
          b = synced_row now (beat_rowid b) (beat_file_name b)) \<and>
      distinct (map beat_file_name added) \<and> distinct (map beat_slug added) \<and>
      set (map beat_slug added) \<inter> set (slugs db) = {})"

section \<open>The loop of sync_beats_from_folder, step by step\<close>

lemma select_None_iff:
  "select_id_by_file_name db f = None \<longleftrightarrow> f \<notin> set (file_names db)"
proof -
  have "select_id_by_file_name db f = None \<longleftrightarrow>
        filter (\<lambda>b. beat_file_name b = f) (beats db) = []"
    by (simp add: select_id_by_file_name_def split: list.splits)
  then show ?thesis
    by (auto simp: file_names_def filter_empty_conv)
qed

lemma sync_loop_skip:
  "f \<in> set (file_names (working c)) \<Longrightarrow> sync_loop now c (f # fs) = sync_loop now c fs"
  using select_None_iff [of "working c" f] by simp

lemma sync_loop_collide:
  "f \<notin> set (file_names (working c)) \<Longrightarrow> slug_of f \<in> set (slugs (working c)) \<Longrightarrow>
   sync_loop now c (f # fs) = (c, Inl (IntegrityError ''UNIQUE constraint failed: beats.slug''))"
  using select_None_iff [of "working c" f]
  by (simp add: execute_insert_beat_def insert_beat_def opt_in_int64_def slug_of_def
      title_of_def slugs_def Let_def)

lemma sync_loop_insert:
  "f \<notin> set (file_names (working c)) \<Longrightarrow> slug_of f \<notin> set (slugs (working c)) \<Longrightarrow>
   sync_loop now c (f # fs) = sync_loop now (step now c f) fs"
  using select_None_iff [of "working c" f]
  by (simp add: execute_insert_beat_def insert_beat_def opt_in_int64_def slug_of_def
      title_of_def file_type_of_def slugs_def Let_def synced_row_def step_def)

lemma step_simps:
  "committed (step now c f) = committed c"
  "file_names (working (step now c f)) = file_names (working c) @ [f]"
  "slugs (working (step now c f)) = slugs (working c) @ [slug_of f]"
  "exclusive_inquiries (working (step now c f)) = exclusive_inquiries (working c)"
  "exclusive_inquiries_seq (working (step now c f)) = exclusive_inquiries_seq (working c)"
  by (simp_all add: step_def file_names_def slugs_def synced_row_def)

lemma step_beats:
  "beats (working (step now c f)) = beats (working c) @
     [synced_row now (next_rowid (beats_seq (working c)) (map beat_rowid (beats (working c)))) f]"
  by (simp add: step_def)

lemma sync_loop_cases:
  assumes "f \<in> set (file_names (working c)) \<Longrightarrow> P (sync_loop now c fs)"
    and "f \<notin> set (file_names (working c)) \<Longrightarrow> slug_of f \<in> set (slugs (working c)) \<Longrightarrow>
         P (c, Inl (IntegrityError ''UNIQUE constraint failed: beats.slug''))"
    and "f \<notin> set (file_names (working c)) \<Longrightarrow> slug_of f \<notin> set (slugs (working c)) \<Longrightarrow>
         P (sync_loop now (step now c f) fs)"
  shows "P (sync_loop now c (f # fs))"
  using assms sync_loop_skip [of f c now fs] sync_loop_collide [of f c now fs]
    sync_loop_insert [of f c now fs]
  by (cases "f \<in> set (file_names (working c))"; cases "slug_of f \<in> set (slugs (working c))") simp_all

lemma sync_loop_committed: "committed (fst (sync_loop now c fs)) = committed c"
proof (induction fs arbitrary: c)
  case Nil
  show ?case by simp
next
  case (Cons f fs)
  show ?case
    by (rule sync_loop_cases) (simp_all add: Cons.IH step_simps)
qed

lemma sync_loop_inquiries:
  "exclusive_inquiries (working (fst (sync_loop now c fs))) = exclusive_inquiries (working c) \<and>
   exclusive_inquiries_seq (working (fst (sync_loop now c fs))) = exclusive_inquiries_seq (working c)"
proof (induction fs arbitrary: c)
  case Nil
  show ?case by simp
next
  case (Cons f fs)
  show ?case
    by (rule sync_loop_cases) (simp_all add: Cons.IH step_simps)
qed

lemma sync_loop_error:
  "snd (sync_loop now c fs) = Inl e \<Longrightarrow>
   e = IntegrityError ''UNIQUE constraint failed: beats.slug''"
proof (induction fs arbitrary: c)
  case Nil
  then show ?case by simp
next
  case (Cons f fs)
  have "snd (sync_loop now c (f # fs)) = Inl e \<longrightarrow>
        e = IntegrityError ''UNIQUE constraint failed: beats.slug''"
    by (rule sync_loop_cases) (auto dest: Cons.IH)
  with Cons.prems show ?case by simp
qed

lemma sync_loop_added:
  "\<exists>added. beats (working (fst (sync_loop now c fs))) = beats (working c) @ added \<and>
           added_ok now (working c) fs added"
proof (induction fs arbitrary: c)
  case Nil
  show ?case by (simp add: added_ok_def)
next
  case (Cons f fs)
  show ?case
  proof (rule sync_loop_cases)
    assume "f \<in> set (file_names (working c))"
    from Cons.IH [of c] show "\<exists>added. beats (working (fst (sync_loop now c fs))) =
        beats (working c) @ added \<and> added_ok now (working c) (f # fs) added"
      by (auto simp: added_ok_def)
  next
    show "\<exists>added. beats (working (fst (c, Inl (IntegrityError ''UNIQUE constraint failed: beats.slug'')))) =
        beats (working c) @ added \<and> added_ok now (working c) (f # fs) added"
      by (simp add: added_ok_def)
  next
    assume new: "f \<notin> set (file_names (working c))" "slug_of f \<notin> set (slugs (working c))"
    let ?row = "synced_row now (next_rowid (beats_seq (working c)) (map beat_rowid (beats (working c)))) f"
    from Cons.IH [of "step now c f"] obtain added where
      a: "beats (working (fst (sync_loop now (step now c f) fs))) =
            beats (working (step now c f)) @ added"
      and ok: "added_ok now (working (step now c f)) fs added"
      by blast
    have "beats (working (fst (sync_loop now (step now c f) fs))) = beats (working c) @ (?row # added)"
      using a by (simp add: step_beats)
    moreover have "added_ok now (working c) (f # fs) (?row # added)"
      using ok new by (auto simp: added_ok_def step_simps synced_row_def)
    ultimately show "\<exists>added. beats (working (fst (sync_loop now (step now c f) fs))) =
        beats (working c) @ added \<and> added_ok now (working c) (f # fs) added"
      by blast
  qed
qed

lemma sync_loop_all_present:
  "snd (sync_loop now c fs) = Inr u \<Longrightarrow> set fs \<subseteq> set (file_names (working (fst (sync_loop now c fs))))"
proof (induction fs arbitrary: c)
  case Nil
  show ?case by simp
next
  case (Cons f fs)
  have mono: "set (file_names (working d)) \<subseteq> set (file_names (working (fst (sync_loop now d fs))))" for d
    using sync_loop_added [of now d fs] by (auto simp: file_names_def)
  have "snd (sync_loop now c (f # fs)) = Inr u \<longrightarrow>
        set (f # fs) \<subseteq> set (file_names (working (fst (sync_loop now c (f # fs)))))"
  proof (rule sync_loop_cases)
    assume "f \<in> set (file_names (working c))"
    then show "snd (sync_loop now c fs) = Inr u \<longrightarrow>
        set (f # fs) \<subseteq> set (file_names (working (fst (sync_loop now c fs))))"
      using Cons.IH [of c] mono [of c] by auto
  next
    show "snd (c, Inl (IntegrityError ''UNIQUE constraint failed: beats.slug'')) = Inr u \<longrightarrow>
        set (f # fs) \<subseteq> set (file_names (working (fst (c, Inl (IntegrityError ''UNIQUE constraint failed: beats.slug'')))))"
      by simp
  next
    show "snd (sync_loop now (step now c f) fs) = Inr u \<longrightarrow>
        set (f # fs) \<subseteq> set (file_names (working (fst (sync_loop now (step now c f) fs))))"
      using Cons.IH [of "step now c f"] mono [of "step now c f"] by (auto simp: step_simps)
  qed
  with Cons.prems show ?case by simp
qed



section \<open>sync_beats_from_folder as a whole\<close>

lemma sync_Entries_failed:
  assumes "snd (sync_loop now (connect db) (filter is_audio_file entries)) = Inl e"
  shows "sync_beats_from_folder now (Entries entries) db = (db, [ErrorSyncingBeats e], Inr ())"
proof -
  obtain c where c: "sync_loop now (connect db) (filter is_audio_file entries) = (c, Inl e)"
    using assms by (cases "sync_loop now (connect db) (filter is_audio_file entries)") simp
  have "committed c = db"
    using sync_loop_committed [of now "connect db" "filter is_audio_file entries"] c
    by (simp add: connect_def)
  then show ?thesis
    by (simp add: sync_beats_from_folder_def sync_try_body_def c conn_exit_def rollback_def)
qed

lemma sync_Entries_passed:
  assumes "snd (sync_loop now (connect db) (filter is_audio_file entries)) = Inr u"
  shows "sync_beats_from_folder now (Entries entries) db =
           (working (fst (sync_loop now (connect db) (filter is_audio_file entries))),
            [Synced (length (filter is_audio_file entries))], Inr ())"
proof -
  obtain c where c: "sync_loop now (connect db) (filter is_audio_file entries) = (c, Inr u)"
    using assms by (cases "sync_loop now (connect db) (filter is_audio_file entries)") simp
  show ?thesis
    by (simp add: sync_beats_from_folder_def sync_try_body_def c conn_exit_def commit_def)
qed

lemma sync_Missing: "sync_beats_from_folder now Missing db = (db, [BeatsFolderNotFound], Inr ())"
  by (simp add: sync_beats_from_folder_def)

lemma sync_Unlistable:
  "sync_beats_from_folder now (Unlistable e) db = (db, [ErrorSyncingBeats e], Inr ())"
  by (simp add: sync_beats_from_folder_def sync_try_body_def)

lemma sync_cases:
  assumes "folder = Missing \<Longrightarrow> P (db, [BeatsFolderNotFound], Inr ())"
    and "\<And>e. folder = Unlistable e \<Longrightarrow> P (db, [ErrorSyncingBeats e], Inr ())"
    and "\<And>entries e. folder = Entries entries \<Longrightarrow>
           snd (sync_loop now (connect db) (filter is_audio_file entries)) = Inl e \<Longrightarrow>
           P (db, [ErrorSyncingBeats e], Inr ())"
    and "\<And>entries. folder = Entries entries \<Longrightarrow>
           snd (sync_loop now (connect db) (filter is_audio_file entries)) = Inr () \<Longrightarrow>
           P (working (fst (sync_loop now (connect db) (filter is_audio_file entries))),
              [Synced (length (filter is_audio_file entries))], Inr ())"
  shows "P (sync_beats_from_folder now folder db)"
proof (cases folder)
  case Missing
  then show ?thesis using assms(1) by (simp add: sync_Missing)
next
  case (Unlistable e)
  then show ?thesis using assms(2) by (simp add: sync_Unlistable)
next
  case (Entries entries)
  show ?thesis
  proof (cases "snd (sync_loop now (connect db) (filter is_audio_file entries))")
    case (Inl e)
    then show ?thesis using assms(3) Entries by (simp add: sync_Entries_failed)
  next
    case (Inr u)
    then show ?thesis using assms(4) Entries by (simp add: sync_Entries_passed)
  qed
qed

section \<open>Claims about the synchronisation pass\<close>

text \<open>
  Claim C9. A pass is all or nothing up to its first failing insert: when an insert of
  the loop raises, whatever rows the loop had inserted before it (they are in the
  working copy of the connection \<open>c\<close>) are rolled back, the store is left exactly as
  it was before the pass, and the exception is printed.
\<close>

theorem sync_insert_failure_rolls_back_pass:
  assumes "sync_loop now (connect db) (filter is_audio_file entries) = (c, Inl e)"
  shows "sync_beats_from_folder now (Entries entries) db = (db, [ErrorSyncingBeats e], Inr ()) \<and>
         committed c = db \<and> prefix (beats db) (beats (working c))"
proof -
  have "committed c = db"
    using assms sync_loop_committed [of now "connect db" "filter is_audio_file entries"]
    by (simp add: connect_def)
  moreover have "prefix (beats db) (beats (working c))"
    using assms sync_loop_added [of now "connect db" "filter is_audio_file entries"]
    by (auto simp: connect_def)
  ultimately show ?thesis
    using assms sync_Entries_failed [of now db entries e] by simp
qed

theorem sync_insert_failure_rolls_back_pass_witness:
  "sync_loop 1 (connect init_db) (filter is_audio_file [''c.mp3'', ''a b.mp3'', ''a_b.mp3'']) =
     (\<lparr>committed = init_db,
       working = init_db\<lparr>beats := [synced_row 1 1 ''c.mp3'', synced_row 1 2 ''a b.mp3''],
                          beats_seq := 2\<rparr>\<rparr>,
      Inl (IntegrityError ''UNIQUE constraint failed: beats.slug'')) \<and>
   sync_beats_from_folder 1 (Entries [''c.mp3'', ''a b.mp3'', ''a_b.mp3'']) init_db =
     (init_db, [ErrorSyncingBeats (IntegrityError ''UNIQUE constraint failed: beats.slug'')],
      Inr ())"
proof -
  have loop: "sync_loop 1 (connect init_db) (filter is_audio_file [''c.mp3'', ''a b.mp3'', ''a_b.mp3'']) =
     (\<lparr>committed = init_db,
       working = init_db\<lparr>beats := [synced_row 1 1 ''c.mp3'', synced_row 1 2 ''a b.mp3''],
                          beats_seq := 2\<rparr>\<rparr>,
      Inl (IntegrityError ''UNIQUE constraint failed: beats.slug''))"
    by code_simp
  show ?thesis
    using loop sync_insert_failure_rolls_back_pass [OF loop] by simp
qed

text \<open>
  Claim C1 says that a pass goes on after a failing insert, catalogues one of two
  colliding files and every independent file. On the code the pass stops there: with
  two names of one slug and an independent third, nothing is catalogued.
\<close>

theorem sync_collision_counterexample:
  "slug_of ''my beat.mp3'' = slug_of ''my_beat.mp3'' \<and>
   sync_beats_from_folder 1 (Entries [''my beat.mp3'', ''other.mp3'', ''my_beat.mp3'']) init_db =
     (init_db, [ErrorSyncingBeats (IntegrityError ''UNIQUE constraint failed: beats.slug'')],
      Inr ())"
  by code_simp

text \<open>
  Claim C1, amended. When two differently named audio files of the directory that the
  store does not hold yet normalise to the same slug, the pass aborts at the failing
  insert: the conflict is printed once, the call returns normally, and no file of the
  pass is catalogued (the store is as it was before).
\<close>

theorem sync_aborts_on_slug_collision:
  assumes "f1 \<in> set entries" "f2 \<in> set entries" "is_audio_file f1" "is_audio_file f2"
    and "f1 \<noteq> f2" "slug_of f1 = slug_of f2"
    and "f1 \<notin> set (file_names db)" "f2 \<notin> set (file_names db)"
  shows "sync_beats_from_folder now (Entries entries) db =
           (db, [ErrorSyncingBeats (IntegrityError ''UNIQUE constraint failed: beats.slug'')],
            Inr ())"
proof -
  let ?files = "filter is_audio_file entries"
  let ?r = "sync_loop now (connect db) ?files"
  have "snd ?r \<noteq> Inr ()"
  proof
    assume ok: "snd ?r = Inr ()"
    from sync_loop_added [of now "connect db" ?files] obtain added where
      b: "beats (working (fst ?r)) = beats db @ added" and a: "added_ok now db ?files added"
      by (auto simp: connect_def)
    have "set ?files \<subseteq> set (file_names (working (fst ?r)))"
      using ok by (rule sync_loop_all_present)
    then have "f1 \<in> set (file_names (working (fst ?r)))" "f2 \<in> set (file_names (working (fst ?r)))"
      using assms(1-4) by auto
    then have "f1 \<in> beat_file_name ` set added" "f2 \<in> beat_file_name ` set added"
      using b assms(7,8) by (auto simp: file_names_def)
    then obtain b1 b2 where b1: "b1 \<in> set added" "beat_file_name b1 = f1"
      and b2: "b2 \<in> set added" "beat_file_name b2 = f2"
      by auto
    have "b1 = synced_row now (beat_rowid b1) f1" "b2 = synced_row now (beat_rowid b2) f2"
      using a b1 b2 by (auto simp: added_ok_def)
    then have "beat_slug b1 = slug_of f1" "beat_slug b2 = slug_of f2"
      by (metis beat.select_convs(3) synced_row_def)+
    then have "beat_slug b1 = beat_slug b2" using assms(6) by simp
    moreover have "distinct (map beat_slug added)" using a by (simp add: added_ok_def)
    ultimately have "b1 = b2"
      using b1(1) b2(1) by (meson distinct_map inj_on_def)
    with b1 b2 assms(5) show False by simp
  qed
  then obtain e where e: "snd ?r = Inl e"
    by (cases "snd ?r") auto
  from sync_loop_error [OF e] e show ?thesis
    by (simp add: sync_Entries_failed)
qed

theorem sync_aborts_on_slug_collision_witness:
  "''my beat.mp3'' \<in> set [''other.mp3'', ''my beat.mp3'', ''my_beat.mp3''] \<and>
   ''my_beat.mp3'' \<in> set [''other.mp3'', ''my beat.mp3'', ''my_beat.mp3''] \<and>
   is_audio_file ''my beat.mp3'' \<and> is_audio_file ''my_beat.mp3'' \<and>
   ''my beat.mp3'' \<noteq> ''my_beat.mp3'' \<and> slug_of ''my beat.mp3'' = slug_of ''my_beat.mp3'' \<and>
   ''my beat.mp3'' \<notin> set (file_names init_db) \<and> ''my_beat.mp3'' \<notin> set (file_names init_db) \<and>
   sync_beats_from_folder 1 (Entries [''other.mp3'', ''my beat.mp3'', ''my_beat.mp3'']) init_db =
     (init_db, [ErrorSyncingBeats (IntegrityError ''UNIQUE constraint failed: beats.slug'')],
      Inr ())"
proof -
  have h: "''my beat.mp3'' \<in> set [''other.mp3'', ''my beat.mp3'', ''my_beat.mp3'']"
    "''my_beat.mp3'' \<in> set [''other.mp3'', ''my beat.mp3'', ''my_beat.mp3'']"
    "is_audio_file ''my beat.mp3''" "is_audio_file ''my_beat.mp3''"
    "''my beat.mp3'' \<noteq> ''my_beat.mp3''" "slug_of ''my beat.mp3'' = slug_of ''my_beat.mp3''"
    "''my beat.mp3'' \<notin> set (file_names init_db)" "''my_beat.mp3'' \<notin> set (file_names init_db)"
    by code_simp+
  show ?thesis
    using h sync_aborts_on_slug_collision [OF h, of 1] by simp
qed


lemma sync_passed_rows:
  assumes "snd (sync_loop now (connect db) fs) = Inr u"
  shows "\<exists>added. beats (working (fst (sync_loop now (connect db) fs))) = beats db @ added \<and>
           added_ok now db fs added \<and>
           set fs \<subseteq> set (file_names (working (fst (sync_loop now (connect db) fs))))"
  using sync_loop_added [of now "connect db" fs] sync_loop_all_present [OF assms]
  by (auto simp: connect_def)




text \<open>
  Claim C10. The pass never lets an exception out: whatever the folder answers and
  whatever the inserts do, \<open>sync_beats_from_folder\<close> returns normally, so that
  \<open>get_all_beats\<close> goes on to its query and returns the rows stored at that moment;
  after a pass that failed (folder missing, or an error printed) these are the rows
  stored before the call.
\<close>

theorem listing_proceeds_after_sync_failure:
  "snd (snd (sync_beats_from_folder now folder db)) = Inr () \<and>
   get_all_beats now folder db =
     (fst (sync_beats_from_folder now folder db),
      fst (snd (sync_beats_from_folder now folder db)),
      Inr (select_all_beats (fst (sync_beats_from_folder now folder db)))) \<and>
   mset (select_all_beats (fst (sync_beats_from_folder now folder db))) =
     mset (beats (fst (sync_beats_from_folder now folder db))) \<and>
   (fst (snd (sync_beats_from_folder now folder db)) = [BeatsFolderNotFound] \<or>
    fst (snd (sync_beats_from_folder now folder db)) = [ErrorSyncingBeats e] \<longrightarrow>
    snd (snd (get_all_beats now folder db)) = Inr (select_all_beats db))"
proof -
  have r: "snd (snd (sync_beats_from_folder now folder db)) = Inr ()"
    by (rule sync_cases [of folder _ db now]) simp_all
  then have g: "get_all_beats now folder db =
     (fst (sync_beats_from_folder now folder db),
      fst (snd (sync_beats_from_folder now folder db)),
      Inr (select_all_beats (fst (sync_beats_from_folder now folder db))))"
    by (cases "sync_beats_from_folder now folder db") (simp add: get_all_beats_def)
  have m: "mset (select_all_beats d) = mset (beats d)" for d
    by (simp add: select_all_beats_def)
  have u: "fst (snd (sync_beats_from_folder now folder db)) = [BeatsFolderNotFound] \<or>
    fst (snd (sync_beats_from_folder now folder db)) = [ErrorSyncingBeats e] \<longrightarrow>
    fst (sync_beats_from_folder now folder db) = db"
    by (rule sync_cases [of folder _ db now]) simp_all
  show ?thesis
    using r g m u by simp
qed

theorem listing_proceeds_after_sync_failure_witness:
  "fst (snd (sync_beats_from_folder 2 (Entries [''track.mp3'', ''track.wav''])
          (fst (sync_beats_from_folder 1 (Entries [''old.ogg'']) init_db)))) =
     [ErrorSyncingBeats (IntegrityError ''UNIQUE constraint failed: beats.slug'')] \<and>
   snd (snd (get_all_beats 2 (Entries [''track.mp3'', ''track.wav''])
          (fst (sync_beats_from_folder 1 (Entries [''old.ogg'']) init_db)))) =
     Inr [synced_row 1 1 ''old.ogg''] \<and>
   fst (snd (sync_beats_from_folder 2 Missing init_db)) = [BeatsFolderNotFound] \<and>
   snd (snd (get_all_beats 2 Missing init_db)) = Inr []"
proof -
  let ?db = "fst (sync_beats_from_folder 1 (Entries [''old.ogg'']) init_db)"
  have p: "fst (snd (sync_beats_from_folder 2 (Entries [''track.mp3'', ''track.wav'']) ?db)) =
     [ErrorSyncingBeats (IntegrityError ''UNIQUE constraint failed: beats.slug'')]"
    by code_simp
  have q: "fst (snd (sync_beats_from_folder 2 Missing init_db)) = [BeatsFolderNotFound]"
    by code_simp
  have v: "select_all_beats ?db = [synced_row 1 1 ''old.ogg'']" "select_all_beats init_db = []"
    by code_simp+
  have t1: "snd (snd (get_all_beats 2 (Entries [''track.mp3'', ''track.wav'']) ?db)) =
      Inr (select_all_beats ?db)"
    using p listing_proceeds_after_sync_failure [of 2 "Entries [''track.mp3'', ''track.wav'']" ?db
        "IntegrityError ''UNIQUE constraint failed: beats.slug''"]
    by blast
  have t2: "snd (snd (get_all_beats 2 Missing init_db)) = Inr (select_all_beats init_db)"
    using q listing_proceeds_after_sync_failure [of 2 Missing init_db OSError]
    by blast
  show ?thesis
    using p q t1 t2 by (simp only: v simp_thms)
qed

section \<open>Claims about add_beat\<close>

lemma fold_max_ge: "(s::int) \<le> fold max ids s"
  by (induction ids arbitrary: s) (auto intro: order_trans [OF max.cobounded2])

lemma fold_max_mem: "(x::int) \<in> set ids \<Longrightarrow> x \<le> fold max ids s"
proof (induction ids arbitrary: s)
  case Nil
  then show ?case by simp
next
  case (Cons a ids)
  show ?case
  proof (cases "x = a")
    case True
    have "max a s \<le> fold max ids (max a s)" by (rule fold_max_ge)
    with True show ?thesis by simp
  next
    case False
    with Cons show ?thesis by simp
  qed
qed

lemma next_rowid_fresh: "next_rowid s ids \<notin> set ids"
  using fold_max_mem [of "next_rowid s ids" ids s] by (auto simp: next_rowid_def)

lemma add_beat_eq:
  "add_beat now db title slug description genre bpm duration file_name file_type =
     (case insert_beat now db title slug description genre bpm duration file_name file_type of
        Inl e \<Rightarrow> (db, Inl e)
      | Inr (db', i) \<Rightarrow> (db', Inr i))"
  by (simp add: add_beat_def execute_insert_beat_def conn_exit_def connect_def commit_def
      rollback_def split: sum.splits prod.splits)

text \<open>
  Claim C2 says that the insert fails whenever the file name is already stored. The
  schema declares only \<open>slug\<close> unique: a second row of the same file name and a new
  slug is accepted.
\<close>

theorem add_beat_duplicate_file_name_counterexample:
  "''a.mp3'' \<in> set (file_names (fst (add_beat 1 init_db (Some ''a'') (Some ''a'') None None None None
       (Some ''a.mp3'') (Some ''mp3'')))) \<and>
   snd (add_beat 2
     (fst (add_beat 1 init_db (Some ''a'') (Some ''a'') None None None None
        (Some ''a.mp3'') (Some ''mp3'')))
     (Some ''b'') (Some ''b'') None None None None (Some ''a.mp3'') (Some ''mp3'')) = Inr 2"
  by code_simp

text \<open>
  Claim C2, amended. \<open>add_beat\<close> fails, leaving the store as it was, whenever the
  given slug is already stored, with the constraint violation of \<open>slug\<close> when no
  other value is refused. When the slug is new it succeeds, whether or not the file
  name is already stored: it appends the row and returns its identity, which no row
  held before.
\<close>

theorem add_beat_unique_slug_only:
  "(s \<in> set (slugs db) \<longrightarrow>
      (\<exists>e. add_beat now db title (Some s) description genre bpm duration file_name file_type =
             (db, Inl e)) \<and>
      (title \<noteq> None \<and> file_name \<noteq> None \<and> file_type \<noteq> None \<and>
       opt_in_int64 bpm \<and> opt_in_int64 duration \<longrightarrow>
       add_beat now db title (Some s) description genre bpm duration file_name file_type =
         (db, Inl (IntegrityError ''UNIQUE constraint failed: beats.slug'')))) \<and>
   (s \<notin> set (slugs db) \<and> opt_in_int64 bpm \<and> opt_in_int64 duration \<longrightarrow>
      add_beat now db (Some t) (Some s) description genre bpm duration (Some f) (Some ft) =
        (db\<lparr>beats := beats db @
              [\<lparr>beat_rowid = next_rowid (beats_seq db) (map beat_rowid (beats db)),
                beat_title = t, beat_slug = s, beat_description = description,
                beat_genre = genre, beat_bpm = bpm, beat_duration = duration,
                beat_file_name = f, beat_file_type = ft, beat_created_at = now\<rparr>],
             beats_seq := next_rowid (beats_seq db) (map beat_rowid (beats db))\<rparr>,
         Inr (next_rowid (beats_seq db) (map beat_rowid (beats db)))) \<and>
      next_rowid (beats_seq db) (map beat_rowid (beats db)) \<notin> set (map beat_rowid (beats db)))"
proof -
  have fresh: "next_rowid (beats_seq db) (map beat_rowid (beats db)) \<notin>
      set (map beat_rowid (beats db))"
    by (rule next_rowid_fresh)
  show ?thesis
    using fresh
    by (auto simp: add_beat_eq insert_beat_def slugs_def Let_def simp del: set_map
        split: option.splits)
qed

theorem add_beat_unique_slug_only_witness:
  "''a'' \<in> set (slugs (fst (add_beat 1 init_db (Some ''a'') (Some ''a'') None None None None
       (Some ''a.mp3'') (Some ''mp3'')))) \<and>
   add_beat 2 (fst (add_beat 1 init_db (Some ''a'') (Some ''a'') None None None None
       (Some ''a.mp3'') (Some ''mp3'')))
     (Some ''A'') (Some ''a'') None None None None (Some ''other.mp3'') (Some ''mp3'') =
     (fst (add_beat 1 init_db (Some ''a'') (Some ''a'') None None None None
       (Some ''a.mp3'') (Some ''mp3'')),
      Inl (IntegrityError ''UNIQUE constraint failed: beats.slug'')) \<and>
   ''b'' \<notin> set (slugs init_db) \<and> opt_in_int64 None \<and>
   snd (add_beat 1 init_db (Some ''B'') (Some ''b'') None None None None
       (Some ''b.wav'') (Some ''wav'')) = Inr 1"
proof -
  let ?db = "fst (add_beat 1 init_db (Some ''a'') (Some ''a'') None None None None
       (Some ''a.mp3'') (Some ''mp3''))"
  have h: "''a'' \<in> set (slugs ?db)" "''b'' \<notin> set (slugs init_db)" "opt_in_int64 None"
    "next_rowid (beats_seq init_db) (map beat_rowid (beats init_db)) = 1"
    by code_simp+
  have a: "add_beat 2 ?db (Some ''A'') (Some ''a'') None None None None (Some ''other.mp3'')
      (Some ''mp3'') = (?db, Inl (IntegrityError ''UNIQUE constraint failed: beats.slug''))"
    using h(1,3) add_beat_unique_slug_only [of "''a''" ?db 2 "Some ''A''" None None None None
        "Some ''other.mp3''" "Some ''mp3''"]
    by simp
  have b: "snd (add_beat 1 init_db (Some ''B'') (Some ''b'') None None None None
       (Some ''b.wav'') (Some ''wav'')) = Inr 1"
    using h(2,3,4) add_beat_unique_slug_only [of "''b''" init_db 1 None None None None None
        None None "''B''" "''b.wav''" "''wav''"]
    by simp
  show ?thesis
    using h(1,2,3) a b by (simp only: simp_thms)
qed

section \<open>Claims about handle_get_beat\<close>

lemma handle_get_beat_eq:
  "handle_get_beat db s =
     (case py_int s of
        Inl e \<Rightarrow> [SendError 500]
      | Inr n \<Rightarrow>
          if \<not> in_int64 n then [SendError 500]
          else (case find (\<lambda>b. beat_rowid b = n) (beats db) of
                  None \<Rightarrow> [SendError 404]
                | Some beat \<Rightarrow>
                    [SendResponse 200,
                     SendHeader ''Content-Type'' (Text ''application/json''),
                     SendHeader ''Access-Control-Allow-Origin'' (Text ''*''),
                     EndHeaders,
                     WriteJson (beat_dict beat)]))"
  by (simp add: handle_get_beat_def get_beat_try_body_def and_then_def get_beat_by_id_def
      split: sum.splits option.splits)

text \<open>What \<open>int\<close> refuses: every string that holds a character which is neither a
  digit, a sign, an underscore nor white space.\<close>

lemma dropWhile_keeps: "x \<in> set xs \<Longrightarrow> \<not> P x \<Longrightarrow> x \<in> set (dropWhile P xs)"
  by (induction xs) auto

lemma strip_keeps: "ch \<in> set s \<Longrightarrow> ch \<notin> set py_whitespace \<Longrightarrow> ch \<in> set (strip s)"
  by (simp add: strip_def dropWhile_keeps)

lemma digit_of_Some: "digit_of ch = Some d \<Longrightarrow> ch \<in> set ''0123456789''"
  unfolding digit_of_def by (drule map_of_SomeD, drule set_zip_leftD)

lemma parse_digits_chars:
  "parse_digits acc p cs = Some n \<Longrightarrow> ch \<in> set cs \<Longrightarrow> ch \<in> set ''0123456789_''"
proof (induction cs arbitrary: acc p)
  case Nil
  then show ?case by simp
next
  case (Cons a cs)
  show ?case
  proof (cases "a = CHR ''_''")
    case True
    with Cons.prems(1) have r: "parse_digits acc False cs = Some n"
      by (simp split: if_splits)
    show ?thesis
    proof (cases "ch = a")
      case same: True
      with True show ?thesis by simp
    next
      case False
      with Cons.prems(2) have "ch \<in> set cs" by simp
      with r show ?thesis by (rule Cons.IH)
    qed
  next
    case False
    with Cons.prems(1) obtain d where d: "digit_of a = Some d"
      and r: "parse_digits (10 * acc + d) True cs = Some n"
      by (auto split: option.splits)
    show ?thesis
    proof (cases "ch = a")
      case True
      have "set ''0123456789'' \<subseteq> set ''0123456789_''" by (simp add: subset_iff)
      with True digit_of_Some [OF d] show ?thesis by blast
    next
      case False
      with Cons.prems(2) have "ch \<in> set cs" by simp
      with r show ?thesis by (rule Cons.IH)
    qed
  qed
qed

lemma py_int_refuses:
  assumes "ch \<in> set s" "ch \<notin> set int_chars"
  shows "py_int s = Inl ValueError"
proof -
  have w: "ch \<notin> set py_whitespace" and g: "ch \<noteq> CHR ''-''" "ch \<noteq> CHR ''+''"
    and d: "ch \<notin> set ''0123456789_''"
    using assms(2) by (auto simp: int_chars_def)
  let ?t = "strip s"
  let ?body = "if take 1 ?t = ''-'' \<or> take 1 ?t = ''+'' then drop 1 ?t else ?t"
  have t: "ch \<in> set ?t"
    using assms(1) w by (rule strip_keeps)
  have "ch \<in> set ?body"
  proof (cases ?t)
    case Nil
    with t show ?thesis by simp
  next
    case (Cons a r)
    with t g show ?thesis by (cases "a = CHR ''-'' \<or> a = CHR ''+''") auto
  qed
  then have "parse_digits 0 False ?body = None"
    using parse_digits_chars [of 0 False ?body _ ch] d
    by (cases "parse_digits 0 False ?body") blast+
  then show ?thesis
    by (simp add: py_int_def Let_def)
qed

text \<open>
  Claim C5 says that an id that is not a positive integer is answered as invalid input
  (400). The handler has no such answer: an id that \<open>int\<close> refuses is answered 500,
  and zero or a negative id is looked up and answered 404.
\<close>

theorem get_beat_malformed_id_counterexample:
  "handle_get_beat init_db ''abc'' = [SendError 500] \<and>
   handle_get_beat init_db '''' = [SendError 500] \<and>
   handle_get_beat init_db ''-5'' = [SendError 404]"
  by code_simp

text \<open>
  Claim C5, amended. \<open>handle_get_beat\<close> converts its id with \<open>int\<close>: an id that
  \<open>int\<close> refuses (as it does every id holding a character other than a digit, a sign,
  an underscore or white space), or one beyond 64 bits, is answered with the
  internal-failure signal (500); any other integer, positive or not, with no matching
  row is answered not found (404); one with a matching row is answered with that row.
\<close>

theorem get_beat_signals:
  "(py_int s = Inl e \<longrightarrow> handle_get_beat db s = [SendError 500]) \<and>
   ((\<exists>ch\<in>set s. ch \<notin> set int_chars) \<longrightarrow> handle_get_beat db s = [SendError 500]) \<and>
   (py_int s = Inr n \<and> \<not> in_int64 n \<longrightarrow> handle_get_beat db s = [SendError 500]) \<and>
   (py_int s = Inr n \<and> in_int64 n \<and> n \<notin> set (map beat_rowid (beats db)) \<longrightarrow>
      handle_get_beat db s = [SendError 404]) \<and>
   (py_int s = Inr n \<and> in_int64 n \<and> find (\<lambda>b. beat_rowid b = n) (beats db) = Some beat \<longrightarrow>
      handle_get_beat db s =
        [SendResponse 200,
         SendHeader ''Content-Type'' (Text ''application/json''),
         SendHeader ''Access-Control-Allow-Origin'' (Text ''*''),
         EndHeaders,
         WriteJson (beat_dict beat)])"
proof -
  have none: "n \<notin> set (map beat_rowid (beats db)) \<Longrightarrow>
      find (\<lambda>b. beat_rowid b = n) (beats db) = None"
    by (auto simp: find_None_iff)
  have refused: "(\<exists>ch\<in>set s. ch \<notin> set int_chars) \<longrightarrow> handle_get_beat db s = [SendError 500]"
    using py_int_refuses [of _ s] by (auto simp: handle_get_beat_eq)
  show ?thesis
    using none refused by (auto simp: handle_get_beat_eq simp del: set_map)
qed

theorem get_beat_signals_witness:
  "py_int ''12a'' = Inl ValueError \<and> handle_get_beat init_db ''12a'' = [SendError 500] \<and>
   CHR 0x1C \<in> set [CHR 0x1C, CHR ''1'', CHR 0x1F] \<and> CHR 0x1C \<notin> set int_chars \<and>
   handle_get_beat init_db [CHR 0x1C, CHR ''1'', CHR 0x1F] = [SendError 500] \<and>
   py_int ''99999999999999999999'' = Inr 99999999999999999999 \<and>
   \<not> in_int64 99999999999999999999 \<and>
   handle_get_beat init_db ''99999999999999999999'' = [SendError 500] \<and>
   py_int ''0'' = Inr 0 \<and> in_int64 0 \<and> 0 \<notin> set (map beat_rowid (beats init_db)) \<and>
   handle_get_beat init_db ''0'' = [SendError 404] \<and>
   py_int [CHR 0xA0, CHR ''1''] = Inr 1 \<and> in_int64 1 \<and>
   find (\<lambda>b. beat_rowid b = 1)
     (beats (init_db\<lparr>beats := [synced_row 4 1 ''a.mp3'']\<rparr>)) = Some (synced_row 4 1 ''a.mp3'') \<and>
   handle_get_beat (init_db\<lparr>beats := [synced_row 4 1 ''a.mp3'']\<rparr>) [CHR 0xA0, CHR ''1''] =
     [SendResponse 200,
      SendHeader ''Content-Type'' (Text ''application/json''),
      SendHeader ''Access-Control-Allow-Origin'' (Text ''*''),
      EndHeaders,
      WriteJson (beat_dict (synced_row 4 1 ''a.mp3''))]"
proof -
  have h1: "py_int ''12a'' = Inl ValueError" by code_simp
  have h5: "CHR 0x1C \<in> set [CHR 0x1C, CHR ''1'', CHR 0x1F]" "CHR 0x1C \<notin> set int_chars"
    by code_simp+
  have h2: "py_int ''99999999999999999999'' = Inr 99999999999999999999"
    "\<not> in_int64 99999999999999999999"
    by code_simp+
  have h3: "py_int ''0'' = Inr 0" "in_int64 0" "0 \<notin> set (map beat_rowid (beats init_db))"
    by code_simp+
  have h4: "py_int [CHR 0xA0, CHR ''1''] = Inr 1" "in_int64 1"
    "find (\<lambda>b. beat_rowid b = 1)
       (beats (init_db\<lparr>beats := [synced_row 4 1 ''a.mp3'']\<rparr>)) = Some (synced_row 4 1 ''a.mp3'')"
    by code_simp+
  have t1: "handle_get_beat init_db ''12a'' = [SendError 500]"
    using h1 get_beat_signals [of "''12a''" ValueError init_db] by blast
  have t5: "handle_get_beat init_db [CHR 0x1C, CHR ''1'', CHR 0x1F] = [SendError 500]"
    using h5 get_beat_signals [of "[CHR 0x1C, CHR ''1'', CHR 0x1F]" _ init_db] by blast
  have t2: "handle_get_beat init_db ''99999999999999999999'' = [SendError 500]"
    using h2 get_beat_signals [of "''99999999999999999999''" _ init_db 99999999999999999999]
    by blast
  have t3: "handle_get_beat init_db ''0'' = [SendError 404]"
    using h3 get_beat_signals [of "''0''" _ init_db 0] by blast
  have t4: "handle_get_beat (init_db\<lparr>beats := [synced_row 4 1 ''a.mp3'']\<rparr>) [CHR 0xA0, CHR ''1''] =
     [SendResponse 200,
      SendHeader ''Content-Type'' (Text ''application/json''),
      SendHeader ''Access-Control-Allow-Origin'' (Text ''*''),
      EndHeaders,
      WriteJson (beat_dict (synced_row 4 1 ''a.mp3''))]"
    using h4 get_beat_signals [of "[CHR 0xA0, CHR ''1'']" _
        "init_db\<lparr>beats := [synced_row 4 1 ''a.mp3'']\<rparr>" 1 "synced_row 4 1 ''a.mp3''"]
    by blast
  show ?thesis
    using h1 h2 h3 h4 h5 t1 t2 t3 t4 t5 by (simp only: simp_thms)
qed

section \<open>Claims about handle_audio_stream\<close>

text \<open>
  Claim C8, at an input where the code departs from it. With the audio directory
  \<open>/srv/beats\<close>, the name \<open>../beats2/secret.mp3\<close> resolves to
  \<open>/srv/beats2/secret.mp3\<close>, outside the directory; the guard compares strings, finds
  \<open>/srv/beats\<close> at the start of it, and the file is opened and sent. The name
  \<open>../../etc/passwd\<close> is rejected.
\<close>

theorem audio_guard_sibling_prefix:
  "\<not> resolves_inside (abspath ''/'' ''/srv/beats'')
       (abspath ''/'' (join ''/srv/beats'' ''../beats2/secret.mp3'')) \<and>
   handle_audio_stream
     \<lparr>BEATS_FOLDER = ''/srv/beats'', cwd = ''/'',
      lookup = (\<lambda>p. if p = ''/srv/beats/../beats2/secret.mp3'' then File ''SECRET'' else Absent),
      guess_type = (\<lambda>p. None)\<rparr>
     ''../beats2/secret.mp3'' =
     [SendResponse 200,
      SendHeader ''Content-Type'' (Text ''audio/mpeg''),
      SendHeader ''Content-Length'' (Decimal 6),
      SendHeader ''Accept-Ranges'' (Text ''bytes''),
      SendHeader ''Access-Control-Allow-Origin'' (Text ''*''),
      EndHeaders,
      WriteBytes ''SECRET''] \<and>
   handle_audio_stream
     \<lparr>BEATS_FOLDER = ''/srv/beats'', cwd = ''/'',
      lookup = (\<lambda>p. if p = ''/srv/beats/../beats2/secret.mp3'' then File ''SECRET'' else Absent),
      guess_type = (\<lambda>p. None)\<rparr>
     ''../../etc/passwd'' = [SendError 403]"
  by code_simp

text \<open>What the guard does ensure: a path that does not start with the characters of
  the resolved directory is refused before the file system is asked, and every path
  inside the directory passes.\<close>

lemma audio_guard_rejects:
  "\<not> prefix (abspath (cwd ev) (BEATS_FOLDER ev)) (abspath (cwd ev) (join (BEATS_FOLDER ev) file_name))
   \<Longrightarrow> handle_audio_stream ev file_name = [SendError 403]"
  by (simp add: handle_audio_stream_def)

lemma resolves_inside_prefix: "resolves_inside root p \<Longrightarrow> prefix root p"
  by (auto simp: resolves_inside_def prefix_def split: if_splits)

section \<open>Claims about handle_inquiry_submission\<close>

lemma all_fields_in_dict:
  "all_fields_in (PyDict kvs) fs = Inr (set fs \<subseteq> fst ` set kvs)"
  by (induction fs) (auto simp: and_then_def)

lemma sublist_single: "sublist [ch] s \<longleftrightarrow> ch \<in> set s"
  by (auto simp: sublist_def in_set_conv_decomp)

lemma email_rejected_str:
  "map_of kvs ''email'' = Some (PyStr m) \<Longrightarrow>
   email_rejected (PyDict kvs) = Inr (CHR ''@'' \<notin> set m \<or> CHR ''.'' \<notin> set m)"
  by (auto simp: email_rejected_def and_then_def sublist_single)

lemma save_inquiry_eq:
  "bind_param b = Inr bv \<Longrightarrow> bind_param nm = Inr nv \<Longrightarrow> bind_param em = Inr ev \<Longrightarrow>
   bind_param off = Inr ov \<Longrightarrow>
   save_inquiry aff now db b nm em off =
     (case insert_inquiry aff now db bv nv ev ov of
        Inl e \<Rightarrow> (db, Inl e)
      | Inr (db', i) \<Rightarrow> (db', Inr i))"
  by (simp add: save_inquiry_def and_then_def conn_exit_def connect_def commit_def rollback_def
      split: sum.splits prod.splits)

text \<open>
  Claim C4 says that an empty field is refused. The handler checks only that the four
  keys are present: with an empty \<open>name\<close> and an empty \<open>offer\<close>, a \<open>beatId\<close> and a
  well-formed email it writes the row and answers 200.
\<close>

theorem inquiry_empty_fields_counterexample:
  "handle_inquiry_submission stored_as_bound 7
     (Inr (PyDict [(''beatId'', PyInt 1), (''name'', PyStr ''''),
                   (''email'', PyStr ''a@b.com''), (''offer'', PyStr '''')])) init_db =
     (init_db\<lparr>exclusive_inquiries :=
                [\<lparr>inq_rowid = 1, inq_beat_id = SqlInteger 1, inq_name = SqlText '''',
                  inq_email = SqlText ''a@b.com'', inq_offer = SqlText '''',
                  inq_status = ''new'', inq_created_at = 7\<rparr>],
              exclusive_inquiries_seq := 1\<rparr>,
      [SendResponse 200,
       SendHeader ''Content-Type'' (Text ''application/json''),
       SendHeader ''Access-Control-Allow-Origin'' (Text ''*''),
       EndHeaders,
       WriteJson (PyDict [(''success'', PyBool True), (''inquiryId'', PyInt 1),
                          (''message'', PyStr ''Inquiry submitted successfully'')])])"
  by code_simp

text \<open>
  Claim C4, amended. For a JSON object: when one of the keys \<open>beatId\<close>, \<open>name\<close>,
  \<open>email\<close>, \<open>offer\<close> is absent the handler answers 400 and writes nothing; when all
  are present and the email is a string without \<open>@\<close> or without a dot it answers 400
  and writes nothing; when all are present, the email is a string with both, and the
  other three values can be bound and are not null (empty strings included), it
  writes exactly one row, with status \<open>new\<close> and each value converted to the affinity
  of its column, and answers with the new identity.
\<close>

theorem inquiry_validation:
  "((\<exists>k\<in>set required_fields. k \<notin> fst ` set kvs) \<longrightarrow>
      handle_inquiry_submission aff now (Inr (PyDict kvs)) db =
        (db, bad_request ''Missing required fields'')) \<and>
   (set required_fields \<subseteq> fst ` set kvs \<and> map_of kvs ''email'' = Some (PyStr m) \<and>
    (CHR ''@'' \<notin> set m \<or> CHR ''.'' \<notin> set m) \<longrightarrow>
      handle_inquiry_submission aff now (Inr (PyDict kvs)) db =
        (db, bad_request ''Invalid email format'')) \<and>
   (map_of kvs ''beatId'' = Some b \<and> map_of kvs ''name'' = Some nm \<and>
    map_of kvs ''email'' = Some (PyStr m) \<and> map_of kvs ''offer'' = Some off \<and>
    CHR ''@'' \<in> set m \<and> CHR ''.'' \<in> set m \<and>
    bind_param b = Inr bv \<and> bind_param nm = Inr nv \<and> bind_param off = Inr ov \<and>
    bv \<noteq> SqlNull \<and> nv \<noteq> SqlNull \<and> ov \<noteq> SqlNull \<longrightarrow>
      handle_inquiry_submission aff now (Inr (PyDict kvs)) db =
        (db\<lparr>exclusive_inquiries := exclusive_inquiries db @
              [\<lparr>inq_rowid = next_rowid (exclusive_inquiries_seq db)
                              (map inq_rowid (exclusive_inquiries db)),
                inq_beat_id = integer_affinity aff bv, inq_name = text_affinity aff nv,
                inq_email = SqlText m, inq_offer = text_affinity aff ov,
                inq_status = ''new'', inq_created_at = now\<rparr>],
             exclusive_inquiries_seq := next_rowid (exclusive_inquiries_seq db)
                                          (map inq_rowid (exclusive_inquiries db))\<rparr>,
         [SendResponse 200,
          SendHeader ''Content-Type'' (Text ''application/json''),
          SendHeader ''Access-Control-Allow-Origin'' (Text ''*''),
          EndHeaders,
          WriteJson (PyDict [(''success'', PyBool True),
                             (''inquiryId'', PyInt (next_rowid (exclusive_inquiries_seq db)
                                                      (map inq_rowid (exclusive_inquiries db)))),
                             (''message'', PyStr ''Inquiry submitted successfully'')])]))"
proof (intro conjI impI)
  assume "\<exists>k\<in>set required_fields. k \<notin> fst ` set kvs"
  then have "all_fields_in (PyDict kvs) required_fields = Inr False"
    by (auto simp: all_fields_in_dict)
  then show "handle_inquiry_submission aff now (Inr (PyDict kvs)) db =
      (db, bad_request ''Missing required fields'')"
    by (simp add: handle_inquiry_submission_def inquiry_try_body_def)
next
  assume a: "set required_fields \<subseteq> fst ` set kvs \<and> map_of kvs ''email'' = Some (PyStr m) \<and>
    (CHR ''@'' \<notin> set m \<or> CHR ''.'' \<notin> set m)"
  then have "all_fields_in (PyDict kvs) required_fields = Inr True"
    by (simp add: all_fields_in_dict)
  moreover have "email_rejected (PyDict kvs) = Inr True"
    using a by (simp add: email_rejected_str)
  ultimately show "handle_inquiry_submission aff now (Inr (PyDict kvs)) db =
      (db, bad_request ''Invalid email format'')"
    by (simp add: handle_inquiry_submission_def inquiry_try_body_def)
next
  assume a: "map_of kvs ''beatId'' = Some b \<and> map_of kvs ''name'' = Some nm \<and>
    map_of kvs ''email'' = Some (PyStr m) \<and> map_of kvs ''offer'' = Some off \<and>
    CHR ''@'' \<in> set m \<and> CHR ''.'' \<in> set m \<and>
    bind_param b = Inr bv \<and> bind_param nm = Inr nv \<and> bind_param off = Inr ov \<and>
    bv \<noteq> SqlNull \<and> nv \<noteq> SqlNull \<and> ov \<noteq> SqlNull"
  have "k \<in> fst ` set kvs" if "map_of kvs k = Some v" for k v
    using that by (metis map_of_SomeD fst_conv imageI)
  then have "set required_fields \<subseteq> fst ` set kvs"
    using a by (auto simp: required_fields_def)
  then have f: "all_fields_in (PyDict kvs) required_fields = Inr True"
    by (simp add: all_fields_in_dict)
  have e: "email_rejected (PyDict kvs) = Inr False"
    using a by (simp add: email_rejected_str)
  have s: "save_inquiry aff now db b nm (PyStr m) off =
      (case insert_inquiry aff now db bv nv (SqlText m) ov of
         Inl e \<Rightarrow> (db, Inl e)
       | Inr (db', i) \<Rightarrow> (db', Inr i))"
    using a by (simp add: save_inquiry_eq)
  show "handle_inquiry_submission aff now (Inr (PyDict kvs)) db =
        (db\<lparr>exclusive_inquiries := exclusive_inquiries db @
              [\<lparr>inq_rowid = next_rowid (exclusive_inquiries_seq db)
                              (map inq_rowid (exclusive_inquiries db)),
                inq_beat_id = integer_affinity aff bv, inq_name = text_affinity aff nv,
                inq_email = SqlText m, inq_offer = text_affinity aff ov,
                inq_status = ''new'', inq_created_at = now\<rparr>],
             exclusive_inquiries_seq := next_rowid (exclusive_inquiries_seq db)
                                          (map inq_rowid (exclusive_inquiries db))\<rparr>,
         [SendResponse 200,
          SendHeader ''Content-Type'' (Text ''application/json''),
          SendHeader ''Access-Control-Allow-Origin'' (Text ''*''),
          EndHeaders,
          WriteJson (PyDict [(''success'', PyBool True),
                             (''inquiryId'', PyInt (next_rowid (exclusive_inquiries_seq db)
                                                      (map inq_rowid (exclusive_inquiries db)))),
                             (''message'', PyStr ''Inquiry submitted successfully'')])])"
    using a
    by (simp add: handle_inquiry_submission_def inquiry_try_body_def f e s and_then_def
        insert_inquiry_def Let_def text_affinity_def)
qed

theorem inquiry_validation_witness:
  "''beatId'' \<in> set required_fields \<and>
   ''beatId'' \<notin> fst ` set [(''name'', PyStr ''Ann''), (''email'', PyStr ''a@b.com''),
                           (''offer'', PyStr ''100'')] \<and>
   handle_inquiry_submission stored_as_bound 7
     (Inr (PyDict [(''name'', PyStr ''Ann''), (''email'', PyStr ''a@b.com''),
                   (''offer'', PyStr ''100'')])) init_db =
     (init_db, bad_request ''Missing required fields'') \<and>
   set required_fields \<subseteq> fst ` set [(''beatId'', PyInt 3), (''name'', PyStr ''Ann''),
                                      (''email'', PyStr ''not-an-email''),
                                      (''offer'', PyStr ''100'')] \<and>
   CHR ''@'' \<notin> set ''not-an-email'' \<and>
   handle_inquiry_submission stored_as_bound 7
     (Inr (PyDict [(''beatId'', PyInt 3), (''name'', PyStr ''Ann''),
                   (''email'', PyStr ''not-an-email''), (''offer'', PyStr ''100'')])) init_db =
     (init_db, bad_request ''Invalid email format'') \<and>
   CHR ''@'' \<in> set ''a@b.com'' \<and> CHR ''.'' \<in> set ''a@b.com'' \<and>
   bind_param (PyInt 3) = Inr (SqlInteger 3) \<and>
   handle_inquiry_submission stored_as_bound 7
     (Inr (PyDict [(''beatId'', PyInt 3), (''name'', PyStr ''Ann''),
                   (''email'', PyStr ''a@b.com''), (''offer'', PyStr ''100'')])) init_db =
     (init_db\<lparr>exclusive_inquiries :=
                [\<lparr>inq_rowid = 1, inq_beat_id = SqlInteger 3, inq_name = SqlText ''Ann'',
                  inq_email = SqlText ''a@b.com'', inq_offer = SqlText ''100'',
                  inq_status = ''new'', inq_created_at = 7\<rparr>],
              exclusive_inquiries_seq := 1\<rparr>,
      [SendResponse 200,
       SendHeader ''Content-Type'' (Text ''application/json''),
       SendHeader ''Access-Control-Allow-Origin'' (Text ''*''),
       EndHeaders,
       WriteJson (PyDict [(''success'', PyBool True), (''inquiryId'', PyInt 1),
                          (''message'', PyStr ''Inquiry submitted successfully'')])])"
proof -
  let ?k1 = "[(''name'', PyStr ''Ann''), (''email'', PyStr ''a@b.com''), (''offer'', PyStr ''100'')]"
  let ?k2 = "[(''beatId'', PyInt 3), (''name'', PyStr ''Ann''),
              (''email'', PyStr ''not-an-email''), (''offer'', PyStr ''100'')]"
  let ?k3 = "[(''beatId'', PyInt 3), (''name'', PyStr ''Ann''),
              (''email'', PyStr ''a@b.com''), (''offer'', PyStr ''100'')]"
  have h1: "''beatId'' \<in> set required_fields" "''beatId'' \<notin> fst ` set ?k1"
    by (simp_all add: required_fields_def)
  have h2: "set required_fields \<subseteq> fst ` set ?k2"
    "map_of ?k2 ''email'' = Some (PyStr ''not-an-email'')" "CHR ''@'' \<notin> set ''not-an-email''"
    by (simp_all add: required_fields_def)
  have h3: "map_of ?k3 ''beatId'' = Some (PyInt 3)" "map_of ?k3 ''name'' = Some (PyStr ''Ann'')"
    "map_of ?k3 ''email'' = Some (PyStr ''a@b.com'')" "map_of ?k3 ''offer'' = Some (PyStr ''100'')"
    "CHR ''@'' \<in> set ''a@b.com''" "CHR ''.'' \<in> set ''a@b.com''"
    "bind_param (PyInt 3) = Inr (SqlInteger 3)" "bind_param (PyStr ''Ann'') = Inr (SqlText ''Ann'')"
    "bind_param (PyStr ''100'') = Inr (SqlText ''100'')"
    by (simp_all add: in_int64_def)
  have t1: "handle_inquiry_submission stored_as_bound 7 (Inr (PyDict ?k1)) init_db =
      (init_db, bad_request ''Missing required fields'')"
    using h1 inquiry_validation [of ?k1 stored_as_bound 7 init_db] by blast
  have t2: "handle_inquiry_submission stored_as_bound 7 (Inr (PyDict ?k2)) init_db =
      (init_db, bad_request ''Invalid email format'')"
    using h2 inquiry_validation [of ?k2 stored_as_bound 7 init_db "''not-an-email''"] by blast
  have t3: "handle_inquiry_submission stored_as_bound 7 (Inr (PyDict ?k3)) init_db =
     (init_db\<lparr>exclusive_inquiries :=
                [\<lparr>inq_rowid = 1, inq_beat_id = SqlInteger 3, inq_name = SqlText ''Ann'',
                  inq_email = SqlText ''a@b.com'', inq_offer = SqlText ''100'',
                  inq_status = ''new'', inq_created_at = 7\<rparr>],
              exclusive_inquiries_seq := 1\<rparr>,
      [SendResponse 200,
       SendHeader ''Content-Type'' (Text ''application/json''),
       SendHeader ''Access-Control-Allow-Origin'' (Text ''*''),
       EndHeaders,
       WriteJson (PyDict [(''success'', PyBool True), (''inquiryId'', PyInt 1),
                          (''message'', PyStr ''Inquiry submitted successfully'')])])"
    using h3 inquiry_validation [of ?k3 stored_as_bound 7 init_db "''a@b.com''" "PyInt 3"
        "PyStr ''Ann''" "PyStr ''100''" "SqlInteger 3" "SqlText ''Ann''" "SqlText ''100''"]
    by (simp add: next_rowid_def init_db_def in_int64_def integer_affinity_def text_affinity_def)
  show ?thesis
    using h1 h2 h3 t1 t2 t3 by (simp only: simp_thms)
qed

section \<open>File names: lower-casing, extensions and splitext\<close>

lemma lower_char_cases:
  "lower_char ch = ch \<or> lower_char ch \<in> set (ascii_lowercase @ latin1_lowercase)"
proof (cases "map_of (zip (ascii_uppercase @ latin1_uppercase)
                          (ascii_lowercase @ latin1_lowercase)) ch")
  case None
  then show ?thesis by (simp add: lower_char_def)
next
  case (Some l)
  then have "(ch, l) \<in> set (zip (ascii_uppercase @ latin1_uppercase)
                                  (ascii_lowercase @ latin1_lowercase))"
    by (rule map_of_SomeD)
  then have "l \<in> set (ascii_lowercase @ latin1_lowercase)"
    by (rule set_zip_rightD)
  with Some show ?thesis by (simp add: lower_char_def)
qed

lemma lower_char_fixed:
  "ch \<notin> set (ascii_uppercase @ latin1_uppercase) \<Longrightarrow> lower_char ch = ch"
proof -
  assume "ch \<notin> set (ascii_uppercase @ latin1_uppercase)"
  then have "ch \<notin> fst ` set (zip (ascii_uppercase @ latin1_uppercase)
                                   (ascii_lowercase @ latin1_lowercase))"
    by (auto dest: set_zip_leftD)
  then have "map_of (zip (ascii_uppercase @ latin1_uppercase)
                         (ascii_lowercase @ latin1_lowercase)) ch = None"
    by (simp add: map_of_eq_None_iff)
  then show ?thesis by (simp add: lower_char_def)
qed

lemma lower_char_eq_iff:
  "d \<notin> set (ascii_lowercase @ latin1_lowercase) \<Longrightarrow>
   d \<notin> set (ascii_uppercase @ latin1_uppercase) \<Longrightarrow> lower_char ch = d \<longleftrightarrow> ch = d"
  using lower_char_cases [of ch] lower_char_fixed [of d] by auto

lemma lower_char_punct [simp]:
  "lower_char ch = CHR ''.'' \<longleftrightarrow> ch = CHR ''.''"
  "lower_char ch = CHR ''/'' \<longleftrightarrow> ch = CHR ''/''"
  "lower_char ch = CHR '' '' \<longleftrightarrow> ch = CHR '' ''"
  "lower_char ch = CHR ''_'' \<longleftrightarrow> ch = CHR ''_''"
  by (rule lower_char_eq_iff;
      simp add: ascii_lowercase_def ascii_uppercase_def latin1_lowercase_def latin1_uppercase_def)+

lemma slug_hyphenate:
  "replace (CHR ''_'') (CHR ''-'') (replace (CHR '' '') (CHR ''-'') (lower t)) = map hyphenate t"
  by (simp add: replace_def lower_def hyphenate_def)



lemma rfind_notin: "ch \<notin> set p \<Longrightarrow> rfind p ch = - 1"
  by (induction p) (auto simp: Let_def)

lemma rfind_append_last: "ch \<notin> set ys \<Longrightarrow> rfind (xs @ ch # ys) ch = int (length xs)"
  by (induction xs) (auto simp: Let_def rfind_notin)

lemma splitext_loop_iff:
  "splitext_loop p e i n \<longleftrightarrow> (\<exists>j. i \<le> j \<and> j < n \<and> take 1 (drop j p) \<noteq> [e])"
proof (induction p e i n rule: splitext_loop.induct)
  case (1 p extsep filenameIndex dotIndex)
  show ?case
  proof (cases "filenameIndex < dotIndex")
    case False
    then show ?thesis by (simp add: splitext_loop.simps [of p extsep filenameIndex dotIndex])
  next
    case True
    show ?thesis
    proof (cases "take 1 (drop filenameIndex p) \<noteq> [extsep]")
      case yes: True
      then show ?thesis
        using True by (auto simp: splitext_loop.simps [of p extsep filenameIndex dotIndex])
    next
      case no: False
      have "(\<exists>j. filenameIndex \<le> j \<and> j < dotIndex \<and> take 1 (drop j p) \<noteq> [extsep]) \<longleftrightarrow>
            (\<exists>j. Suc filenameIndex \<le> j \<and> j < dotIndex \<and> take 1 (drop j p) \<noteq> [extsep])"
        using no by (metis Suc_leI le_neq_implies_less Suc_leD)
      then show ?thesis
        using True no "1.IH"
        by (simp add: splitext_loop.simps [of p extsep filenameIndex dotIndex])
    qed
  qed
qed

lemma splitext_stem_ext:
  assumes "CHR ''.'' \<notin> set x" "CHR ''/'' \<notin> set stem" "CHR ''/'' \<notin> set x"
  shows "splitext (stem @ CHR ''.'' # x) =
           (if \<exists>ch\<in>set stem. ch \<noteq> CHR ''.'' then (stem, CHR ''.'' # x)
            else (stem @ CHR ''.'' # x, []))"
proof -
  have sep: "rfind (stem @ CHR ''.'' # x) (CHR ''/'') = - 1"
    using assms by (simp add: rfind_notin)
  have dot: "rfind (stem @ CHR ''.'' # x) (CHR ''.'') = int (length stem)"
    using assms by (simp add: rfind_append_last)
  have "take 1 (drop j (stem @ CHR ''.'' # x)) = [stem ! j]" if "j < length stem" for j
  proof -
    have "drop j stem = stem ! j # drop (Suc j) stem"
      using that by (simp add: Cons_nth_drop_Suc)
    then show ?thesis
      using that by simp
  qed
  then have "splitext_loop (stem @ CHR ''.'' # x) (CHR ''.'') 0 (length stem) \<longleftrightarrow>
        (\<exists>j<length stem. stem ! j \<noteq> CHR ''.'')"
    by (auto simp: splitext_loop_iff)
  also have "\<dots> \<longleftrightarrow> (\<exists>ch\<in>set stem. ch \<noteq> CHR ''.'')"
    by (metis in_set_conv_nth)
  finally have loop: "splitext_loop (stem @ CHR ''.'' # x) (CHR ''.'') 0 (length stem) \<longleftrightarrow>
        (\<exists>ch\<in>set stem. ch \<noteq> CHR ''.'')" .
  have "splitext (stem @ CHR ''.'' # x) =
      (if splitext_loop (stem @ CHR ''.'' # x) (CHR ''.'') 0 (length stem)
       then (stem, CHR ''.'' # x) else (stem @ CHR ''.'' # x, []))"
    by (simp add: splitext_def splitext_generic_def sep dot)
  then show ?thesis
    by (simp only: loop)
qed

lemma sync_new_row:
  assumes "b \<in> set (beats (fst (sync_beats_from_folder now folder db)))" "b \<notin> set (beats db)"
  shows "\<exists>entries. folder = Entries entries \<and> beat_file_name b \<in> set entries \<and>
           is_audio_file (beat_file_name b) \<and>
           b = synced_row now (beat_rowid b) (beat_file_name b)"
proof -
  have "b \<in> set (beats (fst (sync_beats_from_folder now folder db))) \<longrightarrow> b \<notin> set (beats db) \<longrightarrow>
        (\<exists>entries. folder = Entries entries \<and> beat_file_name b \<in> set entries \<and>
           is_audio_file (beat_file_name b) \<and>
           b = synced_row now (beat_rowid b) (beat_file_name b))"
  proof (rule sync_cases [of folder _ db now])
    fix entries
    let ?fs = "filter is_audio_file entries"
    assume f: "folder = Entries entries" and ok: "snd (sync_loop now (connect db) ?fs) = Inr ()"
    from sync_passed_rows [OF ok] obtain added where
      "beats (working (fst (sync_loop now (connect db) ?fs))) = beats db @ added"
      "added_ok now db ?fs added"
      by blast
    then show "b \<in> set (beats (fst (working (fst (sync_loop now (connect db) ?fs)),
        [Synced (length ?fs)], Inr ()))) \<longrightarrow> b \<notin> set (beats db) \<longrightarrow>
        (\<exists>entries. folder = Entries entries \<and> beat_file_name b \<in> set entries \<and>
           is_audio_file (beat_file_name b) \<and>
           b = synced_row now (beat_rowid b) (beat_file_name b))"
      using f by (auto simp: added_ok_def)
  qed simp_all
  with assms show ?thesis by blast
qed

lemma ntpath_splitext_plain_name:
  "CHR ''/'' \<notin> set p \<Longrightarrow> CHR 0x5C \<notin> set p \<Longrightarrow> ntpath_splitext p = splitext p"
  by (simp add: ntpath_splitext_def splitext_def splitext_generic_def rfind_notin)

section \<open>Claims about the derived fields and the extension filter\<close>

lemma recognised_ext_plain:
  assumes "lower ext \<in> {''mp3'', ''wav'', ''m4a'', ''flac'', ''ogg''}"
  shows "CHR ''.'' \<notin> set ext \<and> CHR ''/'' \<notin> set ext"
proof -
  have n: "CHR ''.'' \<notin> set (lower ext)" "CHR ''/'' \<notin> set (lower ext)"
    using assms by auto
  have m: "lower_char ch \<in> set (lower ext)" if "ch \<in> set ext" for ch
    using that by (simp add: lower_def)
  have fixed: "lower_char (CHR ''.'') = CHR ''.''" "lower_char (CHR ''/'') = CHR ''/''"
    by simp_all
  show ?thesis
    using n m [of "CHR ''.''"] m [of "CHR ''/''"] by (auto simp only: fixed)
qed

text \<open>
  Claim C6, at an input where the code departs from it. A file named \<open>.mp3\<close> passes
  the filter of line 91, which finds the extension \<open>.mp3\<close> at the end of its name;
  \<open>os.path.splitext\<close> in lines 103 and 104 finds no extension in the same name. The
  row is stored with the whole name as title and an empty file type, where the claim
  has the extension stripped from the title and \<open>mp3\<close> as the file type.
\<close>

theorem synced_fields_of_bare_extension:
  "is_audio_file ''.mp3'' \<and>
   beats (fst (sync_beats_from_folder 1 (Entries [''.mp3'']) init_db)) =
     [\<lparr>beat_rowid = 1, beat_title = ''.mp3'', beat_slug = ''.mp3'', beat_description = None,
       beat_genre = None, beat_bpm = None, beat_duration = None, beat_file_name = ''.mp3'',
       beat_file_type = '''', beat_created_at = 1\<rparr>]"
  by code_simp

text \<open>
  On every other name the two lines agree. Take a row that a pass has added, whose
  file name is a stem, a dot and a recognised extension (entry names hold no \<open>/\<close>).
  The slug is always the title with every character lower-cased and every space and
  underscore replaced in place by a hyphen. When the stem holds a character other than
  a dot, the title is the stem and the file type is the extension, lower-cased,
  without the dot. Only when the stem is empty or made of dots is the title the whole
  file name and the file type empty.
\<close>

lemma synced_fields_of_plain_name:
  assumes "b \<in> set (beats (fst (sync_beats_from_folder now folder db)))" "b \<notin> set (beats db)"
    and "beat_file_name b = stem @ ''.'' @ ext"
    and "lower ext \<in> {''mp3'', ''wav'', ''m4a'', ''flac'', ''ogg''}"
    and "CHR ''/'' \<notin> set stem"
  shows "beat_slug b = map hyphenate (beat_title b) \<and>
         ((\<exists>ch\<in>set stem. ch \<noteq> CHR ''.'') \<longrightarrow>
            beat_title b = stem \<and> beat_file_type b = lower ext \<and>
            beat_slug b = map hyphenate stem) \<and>
         ((\<forall>ch\<in>set stem. ch = CHR ''.'') \<longrightarrow>
            beat_title b = beat_file_name b \<and> beat_file_type b = [])"
proof -
  from sync_new_row [OF assms(1,2)]
  have "b = synced_row now (beat_rowid b) (beat_file_name b)" by blast
  then have t: "beat_title b = title_of (beat_file_name b)"
    and s: "beat_slug b = slug_of (beat_file_name b)"
    and ft: "beat_file_type b = file_type_of (beat_file_name b)"
    by (metis beat.select_convs(2) synced_row_def, metis beat.select_convs(3) synced_row_def,
        metis beat.select_convs(9) synced_row_def)
  have sl: "beat_slug b = map hyphenate (beat_title b)"
    using s t by (simp add: slug_of_def slug_hyphenate)
  have plain: "CHR ''.'' \<notin> set ext" "CHR ''/'' \<notin> set ext"
    using recognised_ext_plain [OF assms(4)] by simp_all
  have name: "beat_file_name b = stem @ CHR ''.'' # ext"
    using assms(3) by simp
  have sp: "splitext (beat_file_name b) =
      (if \<exists>ch\<in>set stem. ch \<noteq> CHR ''.'' then (stem, CHR ''.'' # ext)
       else (beat_file_name b, []))"
    unfolding name using plain(1) assms(5) plain(2) by (rule splitext_stem_ext)
  show ?thesis
  proof (cases "\<exists>ch\<in>set stem. ch \<noteq> CHR ''.''")
    case True
    then have "splitext (beat_file_name b) = (stem, CHR ''.'' # ext)"
      using sp by simp
    then have "title_of (beat_file_name b) = stem" "file_type_of (beat_file_name b) = lower ext"
      by (simp_all add: title_of_def file_type_of_def)
    then show ?thesis
      using True sl t ft by auto
  next
    case False
    then have "splitext (beat_file_name b) = (beat_file_name b, [])"
      using sp by simp
    then have "title_of (beat_file_name b) = beat_file_name b" "file_type_of (beat_file_name b) = []"
      by (simp_all add: title_of_def file_type_of_def lower_def)
    then show ?thesis
      using False sl t ft by auto
  qed
qed

lemma synced_fields_of_plain_name_example:
  "synced_row 1 1 ''My Song_v2.MP3'' \<in>
     set (beats (fst (sync_beats_from_folder 1 (Entries [''My Song_v2.MP3'']) init_db))) \<and>
   synced_row 1 1 ''My Song_v2.MP3'' \<notin> set (beats init_db) \<and>
   beat_file_name (synced_row 1 1 ''My Song_v2.MP3'') = ''My Song_v2'' @ ''.'' @ ''MP3'' \<and>
   lower ''MP3'' \<in> {''mp3'', ''wav'', ''m4a'', ''flac'', ''ogg''} \<and>
   CHR ''/'' \<notin> set ''My Song_v2'' \<and>
   CHR ''M'' \<in> set ''My Song_v2'' \<and>
   beat_title (synced_row 1 1 ''My Song_v2.MP3'') = ''My Song_v2'' \<and>
   beat_file_type (synced_row 1 1 ''My Song_v2.MP3'') = ''mp3'' \<and>
   beat_slug (synced_row 1 1 ''My Song_v2.MP3'') = ''my-song-v2''"
proof -
  let ?b = "synced_row 1 1 ''My Song_v2.MP3''"
  have h: "?b \<in> set (beats (fst (sync_beats_from_folder 1 (Entries [''My Song_v2.MP3'']) init_db)))"
    "?b \<notin> set (beats init_db)"
    "beat_file_name ?b = ''My Song_v2'' @ ''.'' @ ''MP3''"
    "lower ''MP3'' \<in> {''mp3'', ''wav'', ''m4a'', ''flac'', ''ogg''}"
    "CHR ''/'' \<notin> set ''My Song_v2''"
    by code_simp+
  have e: "\<exists>ch\<in>set ''My Song_v2''. ch \<noteq> CHR ''.''" "CHR ''M'' \<in> set ''My Song_v2''"
    by simp_all
  have v: "lower ''MP3'' = ''mp3''" "map hyphenate ''My Song_v2'' = ''my-song-v2''"
    by code_simp+
  from synced_fields_of_plain_name [OF h] e(1)
  have "beat_title ?b = ''My Song_v2'' \<and> beat_file_type ?b = lower ''MP3'' \<and>
      beat_slug ?b = map hyphenate ''My Song_v2''"
    by blast
  then show ?thesis
    using h e(2) by (simp only: v simp_thms)
qed





end
